theory Spec2Isabelle
  imports Main "HOL-Library.Sublist"
begin

chapter \<open>The model\<close>

section \<open>Strings\<close>

text \<open>
  A Python \<open>str\<close> is modelled as a \<open>string\<close>: one \<open>char\<close> stands for one code point, so
  \<open>length\<close> is Python's \<open>len\<close> and \<open>take n\<close> is the slice \<open>[:n]\<close>. The model covers
  the code points below 256. \<open>s.startswith(p)\<close> is \<open>prefix p s\<close>.
\<close>

section \<open>CRIS prefixes (model\_utils.py, services/model\_id\_service.py)\<close>

text \<open>
  \<open>get_regional_prefix\<close> of \<open>model_utils.py\<close>. The first argument is what
  \<open>boto3.Session().region_name\<close> gives when the region argument is \<open>None\<close>:
  \<open>None\<close> when the lookup raises (the code then takes \<open>us-east-1\<close>), otherwise the
  session's region, which may itself be \<open>None\<close>.
\<close>

definition region_prefix_of :: "string \<Rightarrow> string" where
  "region_prefix_of region =
     (if prefix ''us-'' region then ''us.''
      else if prefix ''eu-'' region then ''eu.''
      else if prefix ''ap-'' region then ''apac.''
      else if prefix ''ca-'' region then ''us.''
      else if prefix ''sa-'' region then ''us.''
      else ''us.'')"

definition truthy :: "string option \<Rightarrow> bool" where
  "truthy v \<longleftrightarrow> (case v of None \<Rightarrow> False | Some s \<Rightarrow> s \<noteq> [])"

definition prefix_for_region :: "string option \<Rightarrow> string" where
  "prefix_for_region region =
     (case region of
        None \<Rightarrow> ''us.''
      | Some r \<Rightarrow> if r = [] then ''us.'' else region_prefix_of r)"

definition get_regional_prefix :: "string option option \<Rightarrow> string option \<Rightarrow> string" where
  "get_regional_prefix session_region region =
     prefix_for_region
       (case region of
          Some r \<Rightarrow> Some r
        | None \<Rightarrow> (case session_region of
                     None \<Rightarrow> Some ''us-east-1''
                   | Some sr \<Rightarrow> sr))"

definition has_regional_prefix :: "string \<Rightarrow> bool" where
  "has_regional_prefix model_id \<longleftrightarrow>
     prefix ''us.'' model_id \<or> prefix ''eu.'' model_id \<or> prefix ''apac.'' model_id"

definition format_model_for_cris :: "string option option \<Rightarrow> string \<Rightarrow> string option \<Rightarrow> string" where
  "format_model_for_cris session_region model_id region =
     (if model_id = [] then model_id
      else if has_regional_prefix model_id then model_id
      else get_regional_prefix session_region region @ model_id)"

text \<open>
  The method of \<open>ModelIDService\<close> threads a region cache. The environment gives the
  \<open>REGION\<close> entry of the configuration (\<open>None\<close> when \<open>get_all_config\<close> raises, otherwise
  the entry, absent or not) and the region of the boto3 session.
\<close>

record model_id_service =
  region_cache :: "string option"

record region_env =
  config_region :: "string option option"
  boto_region :: "string option option"

definition svc_detect_region ::
  "region_env \<Rightarrow> model_id_service \<Rightarrow> string option \<times> model_id_service" where
  "svc_detect_region env svc =
     (case config_region env of
        None \<Rightarrow> (Some ''us-east-1'', svc\<lparr>region_cache := Some ''us-east-1''\<rparr>)
      | Some cr \<Rightarrow>
          if truthy cr then (cr, svc\<lparr>region_cache := cr\<rparr>)
          else (case boto_region env of
                  None \<Rightarrow> (Some ''us-east-1'', svc\<lparr>region_cache := Some ''us-east-1''\<rparr>)
                | Some br \<Rightarrow> (br, svc\<lparr>region_cache := br\<rparr>)))"

definition svc_get_regional_prefix ::
  "region_env \<Rightarrow> model_id_service \<Rightarrow> string option \<Rightarrow> string \<times> model_id_service" where
  "svc_get_regional_prefix env svc region =
     (let (region', svc') =
        (case region of
           Some r \<Rightarrow> (Some r, svc)
         | None \<Rightarrow>
            if truthy (region_cache svc) then (region_cache svc, svc)
            else svc_detect_region env svc)
      in (prefix_for_region region', svc'))"

definition svc_format_model_for_cris ::
  "region_env \<Rightarrow> model_id_service \<Rightarrow> string \<Rightarrow> string option \<Rightarrow> string \<times> model_id_service" where
  "svc_format_model_for_cris env svc model_id region =
     (if model_id = [] then (model_id, svc)
      else if has_regional_prefix model_id then (model_id, svc)
      else (let (regional_prefix, svc') = svc_get_regional_prefix env svc region
            in (regional_prefix @ model_id, svc')))"

text \<open>Calling the formatter once per region of a list, each call on the previous result.\<close>

fun format_repeatedly :: "string option option \<Rightarrow> string \<Rightarrow> string option list \<Rightarrow> string" where
  "format_repeatedly session_region model_id [] = model_id"
| "format_repeatedly session_region model_id (r # rs) =
     format_repeatedly session_region (format_model_for_cris session_region model_id r) rs"

fun svc_format_repeatedly ::
  "region_env \<Rightarrow> model_id_service \<Rightarrow> string \<Rightarrow> string option list \<Rightarrow> string \<times> model_id_service" where
  "svc_format_repeatedly env svc model_id [] = (model_id, svc)"
| "svc_format_repeatedly env svc model_id (r # rs) =
     (let (m, svc') = svc_format_model_for_cris env svc model_id r
      in svc_format_repeatedly env svc' m rs)"

section \<open>Python string operations\<close>

text \<open>
  \<open>str.isspace\<close> on the code points below 256: tab to carriage return, the four
  separators FS, GS, RS and US, the space, NEL and the no-break space. \<open>str.rstrip()\<close>,
  \<open>str.lstrip()\<close> and \<open>str.strip()\<close> remove such characters; \<open>\s\<close> of a \<open>str\<close>
  pattern matches them.
\<close>

definition LF :: char where "LF = CHR 0x0A"
definition CR :: char where "CR = CHR 0x0D"

definition py_isspace :: "char \<Rightarrow> bool" where
  "py_isspace c \<longleftrightarrow> (of_char c :: nat) \<in> {9, 10, 11, 12, 13, 28, 29, 30, 31, 32, 133, 160}"

definition py_rstrip :: "string \<Rightarrow> string" where
  "py_rstrip s = rev (dropWhile py_isspace (rev s))"

definition py_lstrip :: "string \<Rightarrow> string" where
  "py_lstrip s = dropWhile py_isspace s"

definition py_strip :: "string \<Rightarrow> string" where
  "py_strip s = py_rstrip (py_lstrip s)"

text \<open>
  \<open>s.replace(old, new)\<close>: the occurrences of \<open>old\<close> are found from left to right and do
  not overlap; an empty \<open>old\<close> matches before every character and at the end.
\<close>

function replace_scan :: "string \<Rightarrow> string \<Rightarrow> string \<Rightarrow> string" where
  "replace_scan old new [] = []"
| "replace_scan old new (c # cs) =
     (if old \<noteq> [] \<and> prefix old (c # cs)
      then new @ replace_scan old new (drop (length old) (c # cs))
      else c # replace_scan old new cs)"
  by pat_completeness auto
termination
  by (relation "measure (\<lambda>(old, new, s). length s)") auto

definition py_replace :: "string \<Rightarrow> string \<Rightarrow> string \<Rightarrow> string" where
  "py_replace s old new =
     (if old = [] then new @ concat (map (\<lambda>c. c # new) s) else replace_scan old new s)"

section \<open>Code formatting (agent\_service.py, \_cleanup\_code\_formatting)\<close>

text \<open>
  \<open>re.sub(r'\n{3,}', '\n\n', code)\<close>: at each position the greedy \<open>\n{3,}\<close> takes the
  whole run of newlines that starts there when it has three or more; otherwise the character
  is copied and the scan moves on by one.
\<close>

function collapse_newlines :: "string \<Rightarrow> string" where
  "collapse_newlines [] = []"
| "collapse_newlines (c # cs) =
     (let run = takeWhile (\<lambda>x. x = LF) (c # cs)
      in if 3 \<le> length run
         then [LF, LF] @ collapse_newlines (drop (length run) (c # cs))
         else c # collapse_newlines cs)"
  by pat_completeness auto
termination
  by (relation "measure length") (auto simp: Let_def)

text \<open>
  The check for escape sequences only logs; the value returned does not depend on it
  (the log is modelled with the extraction, below).
\<close>

definition cleanup_code_formatting :: "string \<Rightarrow> string" where
  "cleanup_code_formatting code =
     (if code = [] then code
      else let code1 = py_replace (py_replace code [CR, LF] [LF]) [CR] [LF];
               code2 = collapse_newlines code1
           in py_rstrip code2 @ [LF])"


text \<open>Proof vocabulary: no three newlines in a row.\<close>

fun no_triple :: "string \<Rightarrow> bool" where
  "no_triple (a # b # c # cs) \<longleftrightarrow> \<not> (a = LF \<and> b = LF \<and> c = LF) \<and> no_triple (b # c # cs)"
| "no_triple _ \<longleftrightarrow> True"


text \<open>The same function on an argument that may be \<open>None\<close>: \<open>not code\<close> returns it as it is.\<close>

definition cleanup_code_formatting_any :: "string option \<Rightarrow> string option" where
  "cleanup_code_formatting_any code =
     (case code of None \<Rightarrow> None | Some c \<Rightarrow> Some (cleanup_code_formatting c))"

section \<open>Response extractor (agent\_service.py)\<close>

datatype py_exception = ValueError string | ClientError string | OtherException string

definition backslash :: char where "backslash = CHR 0x5C"

text \<open>
  Matching under \<open>re.IGNORECASE\<close>: a character of the text matches a lower-case ASCII
  letter of the pattern when its lower case is that letter.
\<close>

definition ascii_lower :: "char \<Rightarrow> char" where
  "ascii_lower c =
     (let n = (of_char c :: nat) in if 65 \<le> n \<and> n \<le> 90 then char_of (n + 32) else c)"

definition literal_at :: "bool \<Rightarrow> string \<Rightarrow> string \<Rightarrow> bool" where
  "literal_at ignorecase lit s =
     (if ignorecase then prefix lit (map ascii_lower (take (length lit) s)) else prefix lit s)"

text \<open>
  \<open>(.*?)\<close> followed by a literal, under \<open>re.DOTALL\<close>: the shortest text before an
  occurrence of the literal, and the text after that occurrence.
\<close>

fun lazy_until :: "string \<Rightarrow> string \<Rightarrow> (string \<times> string) option" where
  "lazy_until stop [] = (if stop = [] then Some ([], []) else None)"
| "lazy_until stop (c # cs) =
     (if prefix stop (c # cs) then Some ([], drop (length stop) (c # cs))
      else map_option (\<lambda>(g, r). (c # g, r)) (lazy_until stop cs))"

text \<open>
  \<open>\s*\n(.*?)\n```\<close> after the opening fence. The greedy \<open>\s*\<close> first takes the whole
  run of whitespace and gives characters back one at a time; with \<open>k\<close> characters taken
  the next one must be a newline and the lazy group must find its closing fence.
\<close>

definition fence_close :: string where
  "fence_close = LF # ''```''"

fun fence_backtrack :: "nat \<Rightarrow> string \<Rightarrow> (string \<times> string) option" where
  "fence_backtrack k rest =
     (case (if k < length rest \<and> rest ! k = LF
            then lazy_until fence_close (drop (Suc k) rest) else None) of
        Some r \<Rightarrow> Some r
      | None \<Rightarrow> (case k of 0 \<Rightarrow> None | Suc j \<Rightarrow> fence_backtrack j rest))"

definition fence_tail :: "string \<Rightarrow> (string \<times> string) option" where
  "fence_tail rest = fence_backtrack (length (takeWhile py_isspace rest)) rest"

lemma lazy_until_length:
  "lazy_until stop s = Some (g, r) \<Longrightarrow> length r \<le> length s"
proof (induction s arbitrary: g)
  case Nil
  then show ?case by (simp split: if_splits)
next
  case (Cons c cs)
  show ?case
  proof (cases "prefix stop (c # cs)")
    case True
    with Cons.prems have "r = drop (length stop) (c # cs)" by simp
    then show ?thesis by (simp del: drop_Suc_Cons)
  next
    case False
    with Cons.prems obtain g' where "lazy_until stop cs = Some (g', r)" by auto
    with Cons.IH have "length r \<le> length cs" by blast
    then show ?thesis by simp
  qed
qed

lemma fence_backtrack_length:
  "fence_backtrack k rest = Some (g, r) \<Longrightarrow> length r \<le> length rest"
proof (induction k)
  case 0
  then have "lazy_until fence_close (drop (Suc 0) rest) = Some (g, r)"
    by (auto split: if_splits option.splits)
  then have "length r \<le> length (drop (Suc 0) rest)" by (rule lazy_until_length)
  then show ?case by simp
next
  case (Suc k)
  show ?case
  proof (cases "Suc k < length rest \<and> rest ! Suc k = LF
                \<and> lazy_until fence_close (drop (Suc (Suc k)) rest) \<noteq> None")
    case True
    with Suc.prems have "lazy_until fence_close (drop (Suc (Suc k)) rest) = Some (g, r)"
      by (auto split: if_splits option.splits)
    then have "length r \<le> length (drop (Suc (Suc k)) rest)" by (rule lazy_until_length)
    then show ?thesis by simp
  next
    case False
    with Suc.prems have "fence_backtrack k rest = Some (g, r)"
      by (auto split: if_splits option.splits)
    with Suc.IH show ?thesis by blast
  qed
qed

lemma fence_tail_length:
  "fence_tail rest = Some (g, r) \<Longrightarrow> length r \<le> length rest"
  unfolding fence_tail_def by (rule fence_backtrack_length)

text \<open>
  \<open>re.findall\<close> of a fenced pattern: the opening literal, then \<open>\s*\n(.*?)\n```\<close>. The
  scan goes from left to right; after a match it goes on behind the match, otherwise one
  character further. The list holds the groups.
\<close>

function findall_fenced :: "bool \<Rightarrow> string \<Rightarrow> string \<Rightarrow> string list" where
  "findall_fenced ignorecase fence_open [] = []"
| "findall_fenced ignorecase fence_open (c # cs) =
     (case (if fence_open \<noteq> [] \<and> literal_at ignorecase fence_open (c # cs)
            then fence_tail (drop (length fence_open) (c # cs)) else None) of
        Some (g, rest) \<Rightarrow> g # findall_fenced ignorecase fence_open rest
      | None \<Rightarrow> findall_fenced ignorecase fence_open cs)"
  by pat_completeness auto
termination
proof (relation "measure (\<lambda>(i, fence_open, s). length s)", goal_cases)
  case 1
  then show ?case by simp
next
  case 2
  then show ?case by simp
next
  case (3 ignorecase fence_open c cs x2 g rest)
  then have t: "fence_tail (drop (length fence_open) (c # cs)) = Some (g, rest)"
    and n: "fence_open \<noteq> []"
    by (auto split: if_splits)
  from fence_tail_length [OF t] n show ?case
    by (cases fence_open) simp_all
qed

text \<open>
  \<open>.*?(?=\n\n|\Z)\<close>: the shortest text up to a blank line or the end of the string (the
  lookahead takes nothing).
\<close>

fun lazy_to_boundary :: "string \<Rightarrow> string \<times> string" where
  "lazy_to_boundary [] = ([], [])"
| "lazy_to_boundary (c # cs) =
     (if prefix [LF, LF] (c # cs) then ([], c # cs)
      else (let (g, r) = lazy_to_boundary cs in (c # g, r)))"

text \<open>
  The head of an anchored pattern: a literal, and for \<open>Agent\(.*?\)\<close> a lazy run up to
  the first closing literal.
\<close>

definition anchor_head :: "string \<Rightarrow> string option \<Rightarrow> string \<Rightarrow> (string \<times> string) option" where
  "anchor_head lit closer s =
     (if prefix lit s then
        (case closer of
           None \<Rightarrow> Some (lit, drop (length lit) s)
         | Some cl \<Rightarrow>
             (case lazy_until cl (drop (length lit) s) of
                None \<Rightarrow> None
              | Some (g, r) \<Rightarrow> Some (lit @ g @ cl, r)))
      else None)"

lemma lazy_to_boundary_length: "length (snd (lazy_to_boundary s)) \<le> length s"
  by (induction s) (auto simp: split_beta)

lemma anchor_head_length:
  "anchor_head lit closer s = Some (h, r) \<Longrightarrow> length r + length lit \<le> length s"
proof -
  assume a: "anchor_head lit closer s = Some (h, r)"
  then have p: "prefix lit s" by (auto simp: anchor_head_def split: if_splits)
  then have l: "length (drop (length lit) s) + length lit = length s"
    by (auto simp: prefix_def)
  show ?thesis
  proof (cases closer)
    case None
    with a p l show ?thesis by (auto simp: anchor_head_def)
  next
    case (Some cl)
    with a p obtain g where "lazy_until cl (drop (length lit) s) = Some (g, r)"
      by (auto simp: anchor_head_def split: option.splits)
    then have "length r \<le> length (drop (length lit) s)" by (rule lazy_until_length)
    with l show ?thesis by simp
  qed
qed

function findall_anchored :: "string \<Rightarrow> string option \<Rightarrow> string \<Rightarrow> string list" where
  "findall_anchored lit closer [] = []"
| "findall_anchored lit closer (c # cs) =
     (case (if lit \<noteq> [] then anchor_head lit closer (c # cs) else None) of
        Some (h, rest) \<Rightarrow>
          (h @ fst (lazy_to_boundary rest))
            # findall_anchored lit closer (snd (lazy_to_boundary rest))
      | None \<Rightarrow> findall_anchored lit closer cs)"
  by pat_completeness auto
termination
proof (relation "measure (\<lambda>(lit, closer, s). length s)", goal_cases)
  case 1
  then show ?case by simp
next
  case 2
  then show ?case by simp
next
  case (3 lit closer c cs x2 h rest)
  then have t: "anchor_head lit closer (c # cs) = Some (h, rest)"
    and n: "lit \<noteq> []"
    by (auto split: if_splits)
  from anchor_head_length [OF t] n lazy_to_boundary_length [of rest] show ?case
    by (cases lit) simp_all
qed

definition extract_python_blocks :: "string \<Rightarrow> py_exception + string" where
  "extract_python_blocks response =
     (let matches = findall_fenced True ''```python'' response
      in if matches \<noteq> [] then Inr (py_strip (last matches))
         else Inl (ValueError ''No Python code blocks found''))"

definition looks_like_python :: "string \<Rightarrow> bool" where
  "looks_like_python code \<longleftrightarrow>
     sublist ''from strands'' code \<or> sublist ''import strands'' code
     \<or> sublist ''Agent('' code \<or> sublist ''def '' code \<or> sublist ''class '' code
     \<or> sublist ''if __name__'' code"

definition extract_generic_blocks :: "string \<Rightarrow> py_exception + string" where
  "extract_generic_blocks response =
     (let matches = findall_fenced False ''```'' response
      in case find looks_like_python (rev matches) of
           Some m \<Rightarrow> Inr (py_strip m)
         | None \<Rightarrow> Inl (ValueError ''No generic code blocks with Python content found''))"

definition extract_import_based :: "string \<Rightarrow> py_exception + string" where
  "extract_import_based response =
     (let matches = findall_anchored ''from strands'' None response
      in if matches \<noteq> [] then Inr (py_strip (last matches))
         else Inl (ValueError ''No import-based code found''))"

fun first_pattern :: "(string \<times> string option) list \<Rightarrow> string \<Rightarrow> py_exception + string" where
  "first_pattern [] response = Inl (ValueError ''No pattern-based code found'')"
| "first_pattern ((lit, closer) # ps) response =
     (let matches = findall_anchored lit closer response
      in if matches \<noteq> [] then Inr (py_strip (last matches))
         else first_pattern ps response)"

definition extract_pattern_matching :: "string \<Rightarrow> py_exception + string" where
  "extract_pattern_matching response =
     first_pattern [(''from strands import'', None), (''import strands'', None),
                    (''Agent('', Some '')'')] response"

text \<open>
  \<open>_calculate_confidence\<close> adds Python floats: from \<open>0.0\<close> it adds \<open>0.3\<close>, \<open>0.3\<close>, \<open>0.2\<close>,
  \<open>0.1\<close> and \<open>0.1\<close>, each when its indicator is found and in this order, and returns the
  smaller of the sum and \<open>1.0\<close>. Floating-point addition is not modelled: a score is given
  by the increments that are added, in tenths and in the order of the additions.
\<close>

type_synonym float_sum = "nat list"

definition calculate_confidence :: "string \<Rightarrow> float_sum" where
  "calculate_confidence code =
     (if sublist ''from strands'' code \<or> sublist ''import strands'' code then [3] else [])
     @ (if sublist ''Agent('' code then [3] else [])
     @ (if sublist ''def '' code \<or> sublist ''class '' code then [2] else [])
     @ (if sublist ''#'' code then [1] else [])
     @ (if sublist ''import'' code then [1] else [])"

datatype log_level = DEBUG | INFO | WARNING | ERROR

type_synonym log = "(log_level \<times> string) list"

datatype extraction_result =
    is_success: Success (result_code: string) (method_used: string) (confidence: float_sum)
  | Failure (error: string) (raw_response: string)

definition exception_text :: "py_exception \<Rightarrow> string" where
  "exception_text e = (case e of ValueError m \<Rightarrow> m | ClientError m \<Rightarrow> m | OtherException m \<Rightarrow> m)"

definition escaped_newline :: string where
  "escaped_newline = [backslash, CHR ''n'']"

definition escape_error_message :: "string \<Rightarrow> string" where
  "escape_error_message method_name =
     ''CRITICAL: '' @ method_name
       @ '' extracted code with escape sequences - investigate extraction logic!''"

text \<open>
  The loop of \<open>_extract_code_with_fallbacks\<close> over the methods, with the log it writes.
  A method that raises is logged at debug level and the next one is tried; code of at most
  50 characters (after \<open>strip\<close>) is passed over; the first longer code is returned as it
  is, after an error-level log entry when it holds a backslash followed by \<open>n\<close>.
\<close>

fun try_extraction_methods ::
  "(string \<times> (string \<Rightarrow> py_exception + string)) list \<Rightarrow> string \<Rightarrow> log \<times> extraction_result" where
  "try_extraction_methods [] response =
     ([], Failure ''All code extraction methods failed'' (take 500 response))"
| "try_extraction_methods ((method_name, method) # ms) response =
     (case method response of
        Inl e \<Rightarrow>
          (let (lg, res) = try_extraction_methods ms response
           in ((DEBUG, ''Extraction method '' @ method_name @ '' failed: '' @ exception_text e) # lg,
               res))
      | Inr code \<Rightarrow>
          if code \<noteq> [] \<and> 50 < length (py_strip code)
          then ((if sublist escaped_newline code
                 then [(ERROR, escape_error_message method_name)] else []),
                Success code method_name (calculate_confidence code))
          else try_extraction_methods ms response)"

definition extraction_methods :: "(string \<times> (string \<Rightarrow> py_exception + string)) list" where
  "extraction_methods =
     [(''python_blocks'', extract_python_blocks),
      (''generic_blocks'', extract_generic_blocks),
      (''import_based'', extract_import_based),
      (''pattern_matching'', extract_pattern_matching)]"

definition extract_code_with_fallbacks :: "string \<Rightarrow> log \<times> extraction_result" where
  "extract_code_with_fallbacks response = try_extraction_methods extraction_methods response"

text \<open>A method fails on a response when it raises or gives code that is passed over.\<close>

definition method_fails :: "(string \<Rightarrow> py_exception + string) \<Rightarrow> string \<Rightarrow> bool" where
  "method_fails method response =
     (case method response of
        Inl e \<Rightarrow> True
      | Inr code \<Rightarrow> code = [] \<or> length (py_strip code) \<le> 50)"





text \<open>A response that holds no code.\<close>

definition apology :: string where
  "apology = ''I am sorry, no code could be written.''"

section \<open>Artifact store (services/s3\_code\_storage\_service.py)\<close>

text \<open>
  \<open>str.isalnum\<close> on the code points below 256: the ASCII digits and letters, the
  ordinal indicators, the micro sign, the superscript digits, the vulgar fractions and the
  Latin-1 letters (all of \<open>0xC0\<close> to \<open>0xFF\<close> but the multiplication and division signs).
\<close>

definition py_isalnum :: "char \<Rightarrow> bool" where
  "py_isalnum c \<longleftrightarrow>
     (let n = (of_char c :: nat)
      in (48 \<le> n \<and> n \<le> 57) \<or> (65 \<le> n \<and> n \<le> 90) \<or> (97 \<le> n \<and> n \<le> 122)
         \<or> n = 170 \<or> n = 178 \<or> n = 179 \<or> n = 181 \<or> n = 185 \<or> n = 186
         \<or> (188 \<le> n \<and> n \<le> 190) \<or> (192 \<le> n \<and> n \<le> 214)
         \<or> (216 \<le> n \<and> n \<le> 246) \<or> (248 \<le> n \<and> n \<le> 255))"

definition key_char :: "char \<Rightarrow> bool" where
  "key_char c \<longleftrightarrow> py_isalnum c \<or> c = CHR ''-'' \<or> c = CHR ''_''"

definition sanitize_session_id :: "string \<Rightarrow> string" where
  "sanitize_session_id session_id = filter key_char session_id"

definition code_types :: "string list" where
  "code_types = [''pure_strands'', ''agentcore_ready'', ''requirements'']"

text \<open>
  The S3 service is outside the repository. One bucket is a map from keys to objects. A
  call is served, or the service fails it with an exception of its own (the argument
  \<open>fault\<close>); a served \<open>get_object\<close> of a key that holds nothing raises the client error
  \<open>NoSuchKey\<close>. The \<open>LastModified\<close> stamp is left out.
\<close>

record s3_object =
  body :: string
  content_type :: string
  meta_session_id :: string
  meta_code_type :: string
  meta_content_length :: nat
  meta_file_extension :: string

type_synonym s3_bucket = "string \<rightharpoonup> s3_object"

definition s3_put_object ::
  "py_exception option \<Rightarrow> s3_bucket \<Rightarrow> string \<Rightarrow> s3_object \<Rightarrow> py_exception + s3_bucket" where
  "s3_put_object fault objects k obj =
     (case fault of Some e \<Rightarrow> Inl e | None \<Rightarrow> Inr (objects(k \<mapsto> obj)))"

definition s3_get_object ::
  "py_exception option \<Rightarrow> s3_bucket \<Rightarrow> string \<Rightarrow> py_exception + s3_object" where
  "s3_get_object fault objects k =
     (case fault of
        Some e \<Rightarrow> Inl e
      | None \<Rightarrow> (case objects k of
                   None \<Rightarrow> Inl (ClientError ''NoSuchKey'')
                 | Some obj \<Rightarrow> Inr obj))"

definition s3_key :: "string \<Rightarrow> string \<Rightarrow> string \<Rightarrow> string" where
  "s3_key safe_session_id code_type file_extension =
     ''temp-code/'' @ safe_session_id @ ''/'' @ code_type @ file_extension"

datatype store_result =
    StoreSuccess (stored_uri: string) (stored_bucket: string) (stored_key: string)
      (stored_code_type: string) (stored_session_id: string) (stored_length: nat)
  | StoreError string

datatype get_result =
    GetSuccess (code_content: string) (got_uri: string) (got_code_type: string)
      (got_session_id: string) (got_length: nat)
  | GetNotFound string
  | GetError string

definition store_status :: "store_result \<Rightarrow> string" where
  "store_status r = (case r of StoreSuccess _ _ _ _ _ _ \<Rightarrow> ''success'' | StoreError _ \<Rightarrow> ''error'')"

definition get_status :: "get_result \<Rightarrow> string" where
  "get_status r =
     (case r of GetSuccess _ _ _ _ _ \<Rightarrow> ''success'' | GetNotFound _ \<Rightarrow> ''not_found''
      | GetError _ \<Rightarrow> ''error'')"

text \<open>The object that \<open>put_object\<close> is given: the body, the content type and the metadata.\<close>

definition stored_object :: "string \<Rightarrow> string \<Rightarrow> string \<Rightarrow> string \<Rightarrow> s3_object" where
  "stored_object session_id content code_type file_extension =
     \<lparr>body = content,
      content_type = (if file_extension = ''.txt'' then ''text/plain'' else ''text/x-python''),
      meta_session_id = session_id,
      meta_code_type = code_type,
      meta_content_length = length content,
      meta_file_extension = file_extension\<rparr>"

text \<open>
  The body of \<open>store_code_file\<close> inside its \<open>try\<close>: the validations in the order of the
  source, then the upload. \<open>Inl\<close> is the exception raised (the handlers discard its
  message, which is abbreviated here).
\<close>

definition store_code_file_try ::
  "py_exception option \<Rightarrow> string \<Rightarrow> s3_bucket \<Rightarrow> string \<Rightarrow> string \<Rightarrow> string \<Rightarrow> string
     \<Rightarrow> py_exception + (store_result \<times> s3_bucket)" where
  "store_code_file_try fault bucket_name objects session_id content code_type file_extension =
     (if code_type \<notin> set code_types then Inl (ValueError ''Invalid code_type'')
      else if session_id = [] \<or> py_strip session_id = []
        then Inl (ValueError ''session_id cannot be empty'')
      else if content = [] \<or> py_strip content = []
        then Inl (ValueError ''code_content cannot be empty'')
      else let safe_session_id = sanitize_session_id session_id
        in if safe_session_id = []
           then Inl (ValueError ''session_id contains no valid characters for S3 key'')
           else let k = s3_key safe_session_id code_type file_extension;
                    obj = stored_object session_id content code_type file_extension
                in (case s3_put_object fault objects k obj of
                      Inl e \<Rightarrow> Inl e
                    | Inr objects' \<Rightarrow>
                        Inr (StoreSuccess (''s3://'' @ bucket_name @ ''/'' @ k) bucket_name k
                               code_type session_id (length content),
                             objects')))"

text \<open>
  The handlers of \<open>store_code_file\<close>: \<open>ValueError\<close>, \<open>ClientError\<close>, then \<open>Exception\<close>. The
  result is what the caller gets: \<open>Inr\<close> a returned dictionary with the bucket after the
  call, \<open>Inl\<close> an exception that no handler took.
\<close>

definition store_code_file ::
  "py_exception option \<Rightarrow> string \<Rightarrow> s3_bucket \<Rightarrow> string \<Rightarrow> string \<Rightarrow> string \<Rightarrow> string
     \<Rightarrow> py_exception + (store_result \<times> s3_bucket)" where
  "store_code_file fault bucket_name objects session_id content code_type file_extension =
     (case store_code_file_try fault bucket_name objects session_id content code_type
             file_extension of
        Inr r \<Rightarrow> Inr r
      | Inl (ValueError _) \<Rightarrow> Inr (StoreError ''Validation error'', objects)
      | Inl (ClientError _) \<Rightarrow> Inr (StoreError ''AWS S3 error'', objects)
      | Inl (OtherException _) \<Rightarrow> Inr (StoreError ''Unexpected error'', objects))"

definition default_file_extension :: string where
  "default_file_extension = ''.py''"

definition extension_of :: "string \<Rightarrow> string" where
  "extension_of code_type = (if code_type = ''requirements'' then ''.txt'' else ''.py'')"

definition get_code_file_try ::
  "py_exception option \<Rightarrow> string \<Rightarrow> s3_bucket \<Rightarrow> string \<Rightarrow> string \<Rightarrow> py_exception + get_result" where
  "get_code_file_try fault bucket_name objects session_id code_type =
     (if code_type \<notin> set code_types then Inl (ValueError ''Invalid code_type'')
      else let safe_session_id = sanitize_session_id session_id
        in if safe_session_id = []
           then Inl (ValueError ''session_id contains no valid characters for S3 key'')
           else let k = s3_key safe_session_id code_type (extension_of code_type)
                in (case s3_get_object fault objects k of
                      Inl e \<Rightarrow> Inl e
                    | Inr obj \<Rightarrow>
                        Inr (GetSuccess (body obj) (''s3://'' @ bucket_name @ ''/'' @ k)
                               code_type session_id (length (body obj)))))"

text \<open>The handlers of \<open>get_code_file\<close>: \<open>ClientError\<close> (by its code), then \<open>Exception\<close>.\<close>

definition get_code_file ::
  "py_exception option \<Rightarrow> string \<Rightarrow> s3_bucket \<Rightarrow> string \<Rightarrow> string \<Rightarrow> py_exception + get_result" where
  "get_code_file fault bucket_name objects session_id code_type =
     (case get_code_file_try fault bucket_name objects session_id code_type of
        Inr r \<Rightarrow> Inr r
      | Inl (ClientError error_code) \<Rightarrow>
          if error_code = ''NoSuchKey'' then Inr (GetNotFound ''Code file not found'')
          else Inr (GetError ''AWS S3 error'')
      | Inl (ValueError _) \<Rightarrow> Inr (GetError ''Unexpected error'')
      | Inl (OtherException _) \<Rightarrow> Inr (GetError ''Unexpected error''))"

section \<open>Response text (agent\_service.py, \_extract\_response\_text\_properly)\<close>

text \<open>
  The Python values a response is made of: \<open>None\<close>, strings, lists, dictionaries with
  string keys (in insertion order), and objects, given by their attributes and by the text
  that \<open>str\<close> and \<open>repr\<close> give for them. Strings, lists and dictionaries have no attribute
  \<open>message\<close>, \<open>content\<close> or \<open>text\<close>.
\<close>

datatype pyval =
    PNone
  | PStr string
  | PList "pyval list"
  | PDict "(string \<times> pyval) list"
  | PObj "(string \<times> pyval) list" string

definition py_getattr :: "pyval \<Rightarrow> string \<Rightarrow> pyval option" where
  "py_getattr v name = (case v of PObj attrs _ \<Rightarrow> map_of attrs name | _ \<Rightarrow> None)"

text \<open>\<open>sep.join(parts)\<close> of a list of strings.\<close>

fun join_with :: "string \<Rightarrow> string list \<Rightarrow> string" where
  "join_with sep [] = []"
| "join_with sep [p] = p"
| "join_with sep (p # q # ps) = p @ sep @ join_with sep (q # ps)"

text \<open>
  \<open>repr\<close> of a string: single quotes, unless the string holds a single quote and no double
  quote; the quote and the backslash are escaped, tab, newline and carriage return are
  written \<open>\t\<close>, \<open>\n\<close>, \<open>\r\<close>, and the other non-printable code points as \<open>\xhh\<close>.
\<close>

definition hex_digit :: "nat \<Rightarrow> char" where
  "hex_digit n = ''0123456789abcdef'' ! (n mod 16)"

definition repr_char :: "char \<Rightarrow> char \<Rightarrow> string" where
  "repr_char quote c =
     (let n = (of_char c :: nat)
      in if c = quote \<or> c = backslash then [backslash, c]
         else if n = 9 then [backslash, CHR ''t'']
         else if n = 10 then [backslash, CHR ''n'']
         else if n = 13 then [backslash, CHR ''r'']
         else if n < 32 \<or> n = 127 \<or> (128 \<le> n \<and> n \<le> 160) \<or> n = 173
           then [backslash, CHR ''x'', hex_digit (n div 16), hex_digit n]
         else [c])"

definition py_repr_str :: "string \<Rightarrow> string" where
  "py_repr_str s =
     (let quote = (if CHR 0x27 \<in> set s \<and> CHR 0x22 \<notin> set s then CHR 0x22 else CHR 0x27)
      in quote # concat (map (repr_char quote) s) @ [quote])"

fun py_repr :: "pyval \<Rightarrow> string" where
  "py_repr PNone = ''None''"
| "py_repr (PStr s) = py_repr_str s"
| "py_repr (PList xs) = ''['' @ join_with '', '' (map py_repr xs) @ '']''"
| "py_repr (PDict kvs) =
     ''{'' @ join_with '', '' (map (\<lambda>kv. py_repr_str (fst kv) @ '': '' @ py_repr (snd kv)) kvs)
       @ ''}''"
| "py_repr (PObj attrs text) = text"

definition py_str :: "pyval \<Rightarrow> string" where
  "py_str v = (case v of PStr s \<Rightarrow> s | _ \<Rightarrow> py_repr v)"

text \<open>What the loops over the content blocks append for one block, if anything.\<close>

definition dict_block :: "pyval \<Rightarrow> pyval option" where
  "dict_block block =
     (case block of
        PDict kvs \<Rightarrow> map_of kvs ''text''
      | PStr s \<Rightarrow> Some (PStr s)
      | _ \<Rightarrow> None)"

definition obj_block :: "pyval \<Rightarrow> pyval option" where
  "obj_block block =
     (case py_getattr block ''text'' of
        Some t \<Rightarrow> Some t
      | None \<Rightarrow> dict_block block)"

fun the_str :: "pyval \<Rightarrow> string option" where
  "the_str (PStr s) = Some s"
| "the_str _ = None"

text \<open>\<open>'\n'.join(text_parts)\<close>: a \<open>TypeError\<close> when a part is not a string.\<close>

definition join_lines :: "pyval list \<Rightarrow> py_exception + pyval" where
  "join_lines parts =
     (if list_all (\<lambda>p. the_str p \<noteq> None) parts
      then Inr (PStr (join_with [LF] (List.map_filter the_str parts)))
      else Inl (OtherException ''TypeError''))"

definition extract_response_text_properly :: "pyval \<Rightarrow> py_exception + pyval" where
  "extract_response_text_properly result =
     (case py_getattr result ''message'' of
        None \<Rightarrow> Inr (PStr (py_str result))
      | Some message \<Rightarrow>
          (case message of
             PStr s \<Rightarrow> Inr (PStr s)
           | PDict kvs \<Rightarrow>
               (case (case map_of kvs ''content'' of
                        Some (PList blocks) \<Rightarrow>
                          if blocks \<noteq> [] then
                            (let text_parts = List.map_filter dict_block blocks
                             in Some (if text_parts \<noteq> [] then join_lines text_parts
                                      else Inr (PStr (py_str message))))
                          else None
                      | Some (PStr s) \<Rightarrow> Some (Inr (PStr s))
                      | _ \<Rightarrow> None) of
                  Some r \<Rightarrow> r
                | None \<Rightarrow>
                    (case map_of kvs ''text'' of
                       Some t \<Rightarrow> Inr t
                     | None \<Rightarrow> Inr (PStr (py_str message))))
           | PObj attrs text \<Rightarrow>
               (case (case map_of attrs ''content'' of
                        Some (PList blocks) \<Rightarrow>
                          if blocks \<noteq> [] then
                            (let text_parts = List.map_filter obj_block blocks
                             in Some (if text_parts \<noteq> [] then join_lines text_parts
                                      else Inr (PStr (py_str (PList blocks)))))
                          else None
                      | Some (PStr s) \<Rightarrow> Some (Inr (PStr s))
                      | _ \<Rightarrow> None) of
                  Some r \<Rightarrow> r
                | None \<Rightarrow>
                    (case map_of attrs ''text'' of
                       Some t \<Rightarrow> Inr t
                     | None \<Rightarrow> Inr (PStr (py_str message))))
           | _ \<Rightarrow> Inr (PStr (py_str message))))"

definition text_block :: "string \<Rightarrow> pyval" where
  "text_block s = PDict [(''text'', PStr s)]"

definition content_message :: "string list \<Rightarrow> pyval" where
  "content_message texts = PDict [(''content'', PList (map text_block texts))]"

definition agent_result :: "pyval \<Rightarrow> pyval" where
  "agent_result message = PObj [(''message'', message)] ''<AgentResult>''"

text \<open>
  A response dictionary with one text block whose text has two lines, and what \<open>str\<close>
  gives for that dictionary.
\<close>

definition two_line_text :: string where
  "two_line_text = ''a'' @ [LF] @ ''b''"

definition two_line_repr :: string where
  "two_line_repr =
     ''{'' @ [CHR 0x27] @ ''content'' @ [CHR 0x27] @ '': [{'' @ [CHR 0x27] @ ''text''
       @ [CHR 0x27] @ '': '' @ [CHR 0x27] @ ''a'' @ [backslash] @ ''nb'' @ [CHR 0x27] @ ''}]}''"

section \<open>Remote agent invoker (agent\_service.py)\<close>

text \<open>
  One item of \<open>response["response"].iter_lines()\<close>: a line of bytes, given by its UTF-8
  decoding, or a non-empty line of bytes that \<open>decode("utf-8")\<close> rejects. A blank line of
  the stream is the empty line.
\<close>

datatype sse_line = Line string | Undecodable

text \<open>
  \<open>json.loads\<close> and \<open>json.dumps\<close> are parameters of the model. \<open>json.loads\<close> gives a
  string, a value of another type, or raises \<open>JSONDecodeError\<close>.
\<close>

datatype json_value = JsonString string | JsonOther | JsonDecodeError

record final_response =
  fr_success :: bool
  fr_code :: string
  fr_request_id :: "string option"
  fr_streaming :: bool
  fr_generation_method :: string

definition sse_escape :: "string \<Rightarrow> string" where
  "sse_escape text_content =
     py_replace (py_replace text_content [LF] [backslash, CHR ''n'']) [CR] [backslash, CHR ''r'']"

text \<open>
  One round of the loop of the streaming branch: the frames it yields and the text
  accumulated after it, or the exception it raises. A line that is empty is skipped by
  \<open>if line:\<close>. Adding a decoded value that is not a string to the accumulated text is a
  \<open>TypeError\<close>.
\<close>

definition stream_line ::
  "(string \<Rightarrow> json_value) \<Rightarrow> string \<Rightarrow> sse_line \<Rightarrow> py_exception + (string list \<times> string)" where
  "stream_line json_loads full_content line =
     (case line of
        Undecodable \<Rightarrow> Inl (OtherException ''UnicodeDecodeError'')
      | Line decoded_line \<Rightarrow>
          if decoded_line = [] then Inr ([], full_content)
          else if prefix ''data: '' decoded_line then
            (let content_chunk = drop 6 decoded_line
             in case json_loads content_chunk of
                  JsonString text_content \<Rightarrow>
                    Inr ([''data: '' @ sse_escape text_content @ [LF, LF]],
                         full_content @ text_content)
                | JsonOther \<Rightarrow> Inl (OtherException ''TypeError'')
                | JsonDecodeError \<Rightarrow>
                    Inr ([''data: '' @ content_chunk @ [LF, LF]], full_content @ content_chunk))
          else if py_strip decoded_line = [] then Inr ([decoded_line @ [LF]], full_content)
          else Inr ([''data: '' @ decoded_line @ [LF, LF]], full_content @ decoded_line @ [LF]))"

text \<open>
  The loop: the frames yielded, and the accumulated text at the end of the stream or the
  exception that ended the loop.
\<close>

fun stream_lines ::
  "(string \<Rightarrow> json_value) \<Rightarrow> string \<Rightarrow> sse_line list \<Rightarrow> string list \<times> (py_exception + string)" where
  "stream_lines json_loads full_content [] = ([], Inr full_content)"
| "stream_lines json_loads full_content (l # ls) =
     (case stream_line json_loads full_content l of
        Inl e \<Rightarrow> ([], Inl e)
      | Inr (frames, full_content') \<Rightarrow>
          (let (more, ending) = stream_lines json_loads full_content' ls
           in (frames @ more, ending)))"

definition final_frame :: "(final_response \<Rightarrow> string) \<Rightarrow> string option \<Rightarrow> string \<Rightarrow> string" where
  "final_frame json_dumps request_id full_content =
     ''data: [FINAL]''
       @ json_dumps \<lparr>fr_success = True, fr_code = full_content, fr_request_id = request_id,
                     fr_streaming = True,
                     fr_generation_method = ''agentcore_expert_streaming''\<rparr>
       @ [LF, LF]"

text \<open>
  The streaming branch as a generator: what iterating it yields. An exception in the loop
  is taken by the handler at the end of the function, which logs it and returns: the
  generator ends with no final frame.
\<close>

definition streaming_frames ::
  "(string \<Rightarrow> json_value) \<Rightarrow> (final_response \<Rightarrow> string) \<Rightarrow> string option \<Rightarrow> sse_line list
     \<Rightarrow> string list" where
  "streaming_frames json_loads json_dumps request_id lines =
     (case stream_lines json_loads [] lines of
        (frames, Inl e) \<Rightarrow> frames
      | (frames, Inr full_content) \<Rightarrow> frames @ [final_frame json_dumps request_id full_content])"

record agentcore_response =
  rsp_content_type :: string
  rsp_lines :: "sse_line list"

text \<open>
  \<open>_process_agentcore_response\<close> has \<open>yield\<close> in its body, so it is a generator function:
  a call runs none of the body and gives a generator object. Only the streaming branch
  yields; in the other branches iterating the generator gives nothing, and what they
  \<open>return\<close> (a dictionary or \<open>None\<close>) is not seen by the iteration.
\<close>

datatype generator = Generator (yields: "string list")

definition process_agentcore_response ::
  "(string \<Rightarrow> json_value) \<Rightarrow> (final_response \<Rightarrow> string) \<Rightarrow> agentcore_response
     \<Rightarrow> string option \<Rightarrow> bool \<Rightarrow> generator" where
  "process_agentcore_response json_loads json_dumps response request_id stream =
     Generator
       (if sublist ''text/event-stream'' (rsp_content_type response) \<and> stream
        then streaming_frames json_loads json_dumps request_id (rsp_lines response)
        else [])"

text \<open>
  The gate. \<open>_should_use_agentcore_runtime\<close> reads the environment variable
  \<open>USE_AGENTCORE_RUNTIME\<close> (\<open>true\<close> when unset) and compares its lower case with \<open>false\<close>.
  \<open>_get_expert_agent_arn\<close> reads the SSM parameter; any exception there gives \<open>None\<close>.
\<close>

definition should_use_agentcore_runtime :: "string option \<Rightarrow> bool" where
  "should_use_agentcore_runtime use_agentcore =
     (map ascii_lower (case use_agentcore of None \<Rightarrow> ''true'' | Some v \<Rightarrow> v) \<noteq> ''false'')"

definition get_expert_agent_arn :: "py_exception + string \<Rightarrow> string option" where
  "get_expert_agent_arn parameter =
     (case parameter of
        Inl e \<Rightarrow> None
      | Inr agent_arn \<Rightarrow> if agent_arn \<noteq> [] \<and> agent_arn \<noteq> ''None'' then Some agent_arn else None)"

text \<open>
  The environment of one request: the variable, the SSM lookup, and what preparing the
  payload, making the client and \<open>invoke_agent_runtime\<close> give (a response, or the
  exception one of them raises).
\<close>

record agentcore_env =
  env_use_agentcore :: "string option"
  env_arn_parameter :: "py_exception + string"
  env_invocation :: "py_exception + agentcore_response"

definition try_agentcore_expert_agent_try ::
  "(string \<Rightarrow> json_value) \<Rightarrow> (final_response \<Rightarrow> string) \<Rightarrow> agentcore_env \<Rightarrow> string option
     \<Rightarrow> bool \<Rightarrow> py_exception + generator option" where
  "try_agentcore_expert_agent_try json_loads json_dumps env request_id stream =
     (if \<not> should_use_agentcore_runtime (env_use_agentcore env) then Inr None
      else case get_expert_agent_arn (env_arn_parameter env) of
             None \<Rightarrow> Inr None
           | Some expert_agent_arn \<Rightarrow>
               (case env_invocation env of
                  Inl e \<Rightarrow> Inl e
                | Inr response \<Rightarrow>
                    Inr (Some (process_agentcore_response json_loads json_dumps response
                                 request_id stream))))"

definition try_agentcore_expert_agent ::
  "(string \<Rightarrow> json_value) \<Rightarrow> (final_response \<Rightarrow> string) \<Rightarrow> agentcore_env \<Rightarrow> string option
     \<Rightarrow> bool \<Rightarrow> generator option" where
  "try_agentcore_expert_agent json_loads json_dumps env request_id stream =
     (case try_agentcore_expert_agent_try json_loads json_dumps env request_id stream of
        Inl e \<Rightarrow> None
      | Inr r \<Rightarrow> r)"

text \<open>
  \<open>generate_code_freeform\<close>. A generator object is truthy, so whatever the remote attempt
  returns other than \<open>None\<close> is returned at once. The local path (the rest of the
  function) is the parameter \<open>local\<close>: the result it builds, or the exception it raises,
  which is logged and raised again. The first component lists the paths that ran.
\<close>

datatype path = REMOTE_ATTEMPT | LOCAL_GENERATE

datatype 'r generation = FromRemote generator | FromLocal 'r

definition generate_code_freeform ::
  "(string \<Rightarrow> json_value) \<Rightarrow> (final_response \<Rightarrow> string) \<Rightarrow> agentcore_env \<Rightarrow> string option
     \<Rightarrow> bool \<Rightarrow> py_exception + 'r \<Rightarrow> path list \<times> (py_exception + 'r generation)" where
  "generate_code_freeform json_loads json_dumps env request_id stream local =
     (case try_agentcore_expert_agent json_loads json_dumps env request_id stream of
        Some agentcore_result \<Rightarrow> ([REMOTE_ATTEMPT], Inr (FromRemote agentcore_result))
      | None \<Rightarrow>
          ([REMOTE_ATTEMPT, LOCAL_GENERATE],
           case local of Inl e \<Rightarrow> Inl e | Inr r \<Rightarrow> Inr (FromLocal r)))"

text \<open>
  A stream of two data lines with a blank line between them, and \<open>json.loads\<close> on the two
  payloads of that stream (the model asks it nothing else).
\<close>

definition hello_payload :: string where
  "hello_payload = [CHR 0x22] @ ''Hello '' @ [CHR 0x22]"

definition world_payload :: string where
  "world_payload = [CHR 0x22] @ ''world'' @ [backslash, CHR ''n''] @ [CHR 0x22]"

definition hello_line :: string where
  "hello_line = ''data: '' @ hello_payload"

definition world_line :: string where
  "world_line = ''data: '' @ world_payload"

definition example_loads :: "string \<Rightarrow> json_value" where
  "example_loads s =
     (if s = hello_payload then JsonString ''Hello ''
      else if s = world_payload then JsonString (''world'' @ [LF])
      else JsonDecodeError)"

definition example_decode :: "string \<Rightarrow> string" where
  "example_decode s = (case example_loads s of JsonString t \<Rightarrow> t | _ \<Rightarrow> [])"

text \<open>A stream given by its payloads: \<open>None\<close> is a blank line, \<open>Some p\<close> a data line.\<close>

definition data_or_blank :: "string option \<Rightarrow> sse_line" where
  "data_or_blank item = (case item of None \<Rightarrow> Line [] | Some payload \<Rightarrow> Line (''data: '' @ payload))"

definition payloads :: "string option list \<Rightarrow> string list" where
  "payloads items = List.map_filter (\<lambda>item. item) items"

text \<open>
  A request whose remote invocation succeeds and whose response stream then holds bytes
  that are not UTF-8.
\<close>

definition broken_stream_env :: agentcore_env where
  "broken_stream_env =
     \<lparr>env_use_agentcore = None,
      env_arn_parameter = Inr ''arn:aws:bedrock-agentcore:us-east-1:111122223333:runtime/expert'',
      env_invocation = Inr \<lparr>rsp_content_type = ''text/event-stream'', rsp_lines = [Undecodable]\<rparr>\<rparr>"

definition switched_off_env :: agentcore_env where
  "switched_off_env =
     \<lparr>env_use_agentcore = Some ''False'',
      env_arn_parameter = Inr ''arn:aws:bedrock-agentcore:us-east-1:111122223333:runtime/expert'',
      env_invocation = Inr \<lparr>rsp_content_type = ''text/event-stream'', rsp_lines = []\<rparr>\<rparr>"

chapter \<open>Properties\<close>

section \<open>The CRIS formatter\<close>

lemma region_prefix_of_cases:
  "region_prefix_of r = ''us.'' \<or> region_prefix_of r = ''eu.'' \<or> region_prefix_of r = ''apac.''"
  by (simp add: region_prefix_of_def)

lemma prefix_for_region_cases:
  "prefix_for_region r = ''us.'' \<or> prefix_for_region r = ''eu.'' \<or> prefix_for_region r = ''apac.''"
  using region_prefix_of_cases by (auto simp: prefix_for_region_def split: option.splits)

lemma get_regional_prefix_cases:
  "get_regional_prefix sr r \<in> {''us.'', ''eu.'', ''apac.''}"
  using prefix_for_region_cases [of "case r of Some r \<Rightarrow> Some r
        | None \<Rightarrow> (case sr of None \<Rightarrow> Some ''us-east-1'' | Some sr \<Rightarrow> sr)"]
  by (auto simp: get_regional_prefix_def)

lemma svc_get_regional_prefix_cases:
  "fst (svc_get_regional_prefix env svc r) \<in> {''us.'', ''eu.'', ''apac.''}"
proof -
  obtain a b where ab: "(case r of Some r \<Rightarrow> (Some r, svc)
         | None \<Rightarrow> if truthy (region_cache svc) then (region_cache svc, svc)
            else svc_detect_region env svc) = (a, b)"
    by (cases "(case r of Some r \<Rightarrow> (Some r, svc)
         | None \<Rightarrow> if truthy (region_cache svc) then (region_cache svc, svc)
            else svc_detect_region env svc)") auto
  show ?thesis
    using prefix_for_region_cases [of a]
    by (auto simp: svc_get_regional_prefix_def ab)
qed

lemma has_regional_prefix_append:
  "p \<in> {''us.'', ''eu.'', ''apac.''} \<Longrightarrow> has_regional_prefix (p @ m)"
  by (auto simp: has_regional_prefix_def)

lemma format_has_prefix:
  "m \<noteq> [] \<Longrightarrow> has_regional_prefix (format_model_for_cris sr m r)"
  using get_regional_prefix_cases [of sr r]
  by (auto simp: format_model_for_cris_def has_regional_prefix_append simp del: insert_iff)

lemma format_fixed:
  "m = [] \<or> has_regional_prefix m \<Longrightarrow> format_model_for_cris sr m r = m"
  by (auto simp: format_model_for_cris_def)

lemma format_repeatedly_fixed:
  "m = [] \<or> has_regional_prefix m \<Longrightarrow> format_repeatedly sr m rs = m"
  by (induction rs) (simp_all add: format_fixed)

lemma svc_format_has_prefix:
  "m \<noteq> [] \<Longrightarrow> has_regional_prefix (fst (svc_format_model_for_cris env svc m r))"
  using svc_get_regional_prefix_cases [of env svc r]
  by (auto simp: svc_format_model_for_cris_def has_regional_prefix_append split_beta
           simp del: insert_iff)

lemma svc_format_fixed:
  "m = [] \<or> has_regional_prefix m \<Longrightarrow> svc_format_model_for_cris env svc m r = (m, svc)"
  by (auto simp: svc_format_model_for_cris_def)

lemma svc_format_repeatedly_fixed:
  "m = [] \<or> has_regional_prefix m \<Longrightarrow> svc_format_repeatedly env svc m rs = (m, svc)"
  by (induction rs) (simp_all add: svc_format_fixed)

text \<open>
  Claim C6. \<open>format_model_for_cris\<close> (the module function and the service method alike)
  returns a model id that already starts with \<open>us.\<close>, \<open>eu.\<close> or \<open>apac.\<close> unchanged; to any
  other non-empty id it prepends exactly one of these three prefixes; and calling it again,
  any number of times and with any regions, gives what the first call gave.
\<close>

theorem format_model_for_cris_idempotent:
  "(has_regional_prefix m \<longrightarrow>
      format_model_for_cris sr m r = m \<and> fst (svc_format_model_for_cris env svc m r) = m)
   \<and> (m \<noteq> [] \<and> \<not> has_regional_prefix m \<longrightarrow>
        (\<exists>p \<in> {''us.'', ''eu.'', ''apac.''}. format_model_for_cris sr m r = p @ m)
      \<and> (\<exists>p \<in> {''us.'', ''eu.'', ''apac.''}. fst (svc_format_model_for_cris env svc m r) = p @ m))
   \<and> format_repeatedly sr (format_model_for_cris sr m r) rs = format_model_for_cris sr m r
   \<and> fst (svc_format_repeatedly env (snd (svc_format_model_for_cris env svc m r))
             (fst (svc_format_model_for_cris env svc m r)) rs)
       = fst (svc_format_model_for_cris env svc m r)"
proof (intro conjI impI)
  assume "has_regional_prefix m"
  then show "format_model_for_cris sr m r = m"
    and "fst (svc_format_model_for_cris env svc m r) = m"
    by (simp_all add: format_fixed svc_format_fixed)
next
  assume a: "m \<noteq> [] \<and> \<not> has_regional_prefix m"
  then show "\<exists>p \<in> {''us.'', ''eu.'', ''apac.''}. format_model_for_cris sr m r = p @ m"
    using get_regional_prefix_cases [of sr r]
    by (simp add: format_model_for_cris_def del: insert_iff)
  from a show "\<exists>p \<in> {''us.'', ''eu.'', ''apac.''}. fst (svc_format_model_for_cris env svc m r) = p @ m"
    using svc_get_regional_prefix_cases [of env svc r]
    by (simp add: svc_format_model_for_cris_def split_beta del: insert_iff)
next
  show "format_repeatedly sr (format_model_for_cris sr m r) rs = format_model_for_cris sr m r"
  proof (cases "m = []")
    case True
    then show ?thesis by (simp add: format_fixed format_repeatedly_fixed)
  next
    case False
    then show ?thesis by (simp add: format_has_prefix format_repeatedly_fixed)
  qed
next
  show "fst (svc_format_repeatedly env (snd (svc_format_model_for_cris env svc m r))
             (fst (svc_format_model_for_cris env svc m r)) rs)
       = fst (svc_format_model_for_cris env svc m r)"
  proof (cases "m = []")
    case True
    then show ?thesis by (simp add: svc_format_fixed svc_format_repeatedly_fixed)
  next
    case False
    then show ?thesis by (simp add: svc_format_has_prefix svc_format_repeatedly_fixed)
  qed
qed

theorem format_model_for_cris_idempotent_witness:
  "has_regional_prefix ''eu.model''
   \<and> format_model_for_cris None ''eu.model'' (Some ''us-east-1'') = ''eu.model''
   \<and> \<not> has_regional_prefix ''model''
   \<and> format_model_for_cris None ''model'' (Some ''ap-south-1'') = ''apac.model''
   \<and> fst (svc_format_model_for_cris \<lparr>config_region = None, boto_region = None\<rparr>
               \<lparr>region_cache = None\<rparr> ''model'' None) = ''us.model''
   \<and> format_repeatedly None (format_model_for_cris None ''model'' (Some ''ap-south-1''))
         [Some ''eu-west-1'', None] = ''apac.model''"
  using format_model_for_cris_idempotent
          [of "''eu.model''" None "Some ''us-east-1''"
              "\<lparr>config_region = None, boto_region = None\<rparr>" "\<lparr>region_cache = None\<rparr>" "[]"]
        format_model_for_cris_idempotent
          [of "''model''" None "Some ''ap-south-1''"
              "\<lparr>config_region = None, boto_region = None\<rparr>" "\<lparr>region_cache = None\<rparr>"
              "[Some ''eu-west-1'', None]"]
  by (simp add: has_regional_prefix_def format_model_for_cris_def get_regional_prefix_def
        prefix_for_region_def region_prefix_of_def svc_format_model_for_cris_def
        svc_get_regional_prefix_def svc_detect_region_def truthy_def)

section \<open>Code formatting\<close>

lemma replace_scan_absent:
  "old \<noteq> [] \<Longrightarrow> hd old \<notin> set s \<Longrightarrow> replace_scan old new s = s"
proof (induction s)
  case Nil
  then show ?case by simp
next
  case (Cons c cs)
  then have "\<not> prefix old (c # cs)"
    by (cases old) auto
  with Cons show ?case by simp
qed

lemma replace_scan_removes:
  "c \<notin> set new \<Longrightarrow> c \<notin> set (replace_scan [c] new s)"
  by (induction "[c]" new s rule: replace_scan.induct) (auto split: if_splits)

lemma set_collapse_newlines: "set (collapse_newlines s) \<subseteq> insert LF (set s)"
proof (induction s rule: collapse_newlines.induct)
  case 1
  then show ?case by simp
next
  case (2 c cs)
  show ?case
  proof (cases "3 \<le> length (takeWhile (\<lambda>x. x = LF) (c # cs))")
    case True
    with 2 have "set (collapse_newlines (drop (length (takeWhile (\<lambda>x. x = LF) (c # cs))) (c # cs)))
        \<subseteq> insert LF (set (drop (length (takeWhile (\<lambda>x. x = LF) (c # cs))) (c # cs)))"
      by simp
    moreover have "set (drop (length (takeWhile (\<lambda>x. x = LF) (c # cs))) (c # cs)) \<subseteq> set (c # cs)"
      by (rule set_drop_subset)
    ultimately show ?thesis using True
      by (simp add: Let_def del: drop_Suc_Cons takeWhile.simps) blast
  next
    case False
    with 2 show ?thesis by (auto simp: Let_def)
  qed
qed

lemma collapse_non_lf: "c \<noteq> LF \<Longrightarrow> collapse_newlines (c # cs) = c # collapse_newlines cs"
  by simp

lemma collapse_lf1:
  "cs = [] \<or> hd cs \<noteq> LF \<Longrightarrow> collapse_newlines (LF # cs) = LF # collapse_newlines cs"
  by (cases cs) auto

lemma collapse_lf2:
  "cs = [] \<or> hd cs \<noteq> LF \<Longrightarrow> collapse_newlines (LF # LF # cs) = LF # LF # collapse_newlines cs"
  by (cases cs) auto

lemma collapse_lf3:
  "collapse_newlines (LF # LF # LF # cs) = LF # LF # collapse_newlines (dropWhile (\<lambda>x. x = LF) cs)"
proof -
  have "drop (length (takeWhile (\<lambda>x. x = LF) cs)) cs = dropWhile (\<lambda>x. x = LF) cs"
    by (simp add: dropWhile_eq_drop)
  then show ?thesis by (simp add: Let_def)
qed

lemma no_triple_non_lf [simp]: "c \<noteq> LF \<Longrightarrow> no_triple (c # cs) = no_triple cs"
  by (cases cs rule: no_triple.cases) (auto split: if_splits)


lemma newline_shapes:
  obtains "s = []"
  | c cs where "s = c # cs" "c \<noteq> LF"
  | cs where "s = LF # cs" "cs = [] \<or> hd cs \<noteq> LF"
  | cs where "s = LF # LF # cs" "cs = [] \<or> hd cs \<noteq> LF"
  | cs where "s = LF # LF # LF # cs"
proof (cases s)
  case Nil
  then show ?thesis using that by simp
next
  case (Cons a as)
  note s1 = this
  show ?thesis
  proof (cases "a = LF")
    case False
    with s1 that show ?thesis by simp
  next
    case True
    note a = this
    show ?thesis
    proof (cases as)
      case Nil
      with s1 a that show ?thesis by simp
    next
      case (Cons b bs)
      note s2 = this
      show ?thesis
      proof (cases "b = LF")
        case False
        with s1 s2 a that(3) [of as] show ?thesis by simp
      next
        case True
        note b = this
        show ?thesis
        proof (cases bs)
          case Nil
          with s1 s2 a b that(4) [of bs] show ?thesis by simp
        next
          case (Cons d ds)
          show ?thesis
          proof (cases "d = LF")
            case False
            with s1 s2 a b Cons that(4) [of bs] show ?thesis by simp
          next
            case True
            with s1 s2 a b Cons that(5) [of ds] show ?thesis by simp
          qed
        qed
      qed
    qed
  qed
qed

lemma no_triple_lf:
  "t = [] \<or> hd t \<noteq> LF \<Longrightarrow> no_triple (LF # t) = no_triple t"
  by (cases t rule: no_triple.cases) auto

lemma no_triple_lf_lf:
  "t = [] \<or> hd t \<noteq> LF \<Longrightarrow> no_triple (LF # LF # t) = no_triple t"
  by (cases t rule: no_triple.cases) auto

lemma hd_collapse_newlines:
  "s = [] \<or> hd s \<noteq> LF \<Longrightarrow> collapse_newlines s = [] \<or> hd (collapse_newlines s) \<noteq> LF"
  by (cases s) auto

lemma dropWhile_lf_hd:
  "dropWhile (\<lambda>x. x = LF) cs = [] \<or> hd (dropWhile (\<lambda>x. x = LF) cs) \<noteq> LF"
  using hd_dropWhile [of "\<lambda>x. x = LF" cs] by blast

lemma no_triple_collapse: "no_triple (collapse_newlines s)"
proof (induction s rule: length_induct)
  case (1 s)
  show ?case
  proof (cases s rule: newline_shapes)
    case 1
    then show ?thesis by simp
  next
    case (2 c cs)
    with "1.IH" show ?thesis by simp
  next
    case (3 cs)
    with "1.IH" have "no_triple (collapse_newlines cs)" by simp
    with 3 show ?thesis
      using hd_collapse_newlines [of cs]
      by (simp add: collapse_lf1 no_triple_lf del: collapse_newlines.simps)
  next
    case (4 cs)
    with "1.IH" have "no_triple (collapse_newlines cs)" by simp
    with 4 show ?thesis
      using hd_collapse_newlines [of cs]
      by (simp add: collapse_lf2 no_triple_lf_lf del: collapse_newlines.simps)
  next
    case (5 cs)
    have "length (dropWhile (\<lambda>x. x = LF) cs) \<le> length cs"
      by (rule length_dropWhile_le)
    with 5 "1.IH" have "no_triple (collapse_newlines (dropWhile (\<lambda>x. x = LF) cs))" by simp
    with 5 show ?thesis
      using hd_collapse_newlines [OF dropWhile_lf_hd, of cs]
      by (simp add: collapse_lf3 no_triple_lf_lf del: collapse_newlines.simps)
  qed
qed

lemma collapse_fixed: "no_triple s \<Longrightarrow> collapse_newlines s = s"
proof (induction s rule: length_induct)
  case (1 s)
  show ?case
  proof (cases s rule: newline_shapes)
    case 1
    then show ?thesis by simp
  next
    case (2 c cs)
    with "1.prems" "1.IH" show ?thesis by simp
  next
    case (3 cs)
    with "1.prems" "1.IH" show ?thesis
      by (simp add: collapse_lf1 no_triple_lf del: collapse_newlines.simps)
  next
    case (4 cs)
    with "1.prems" "1.IH" show ?thesis
      by (simp add: collapse_lf2 no_triple_lf_lf del: collapse_newlines.simps)
  next
    case (5 cs)
    with "1.prems" show ?thesis by simp
  qed
qed

lemma no_triple_prefix: "no_triple (a @ b) \<Longrightarrow> no_triple a"
  by (induction a rule: no_triple.induct) auto

lemma no_triple_snoc:
  "no_triple r \<Longrightarrow> r = [] \<or> last r \<noteq> LF \<Longrightarrow> no_triple (r @ [LF])"
  by (induction r rule: no_triple.induct) (auto split: if_splits)

lemma py_rstrip_decomp: "\<exists>w. s = py_rstrip s @ w"
proof -
  have "rev (takeWhile py_isspace (rev s) @ dropWhile py_isspace (rev s)) = s"
    by (simp only: takeWhile_dropWhile_id rev_rev_ident)
  then have "s = py_rstrip s @ rev (takeWhile py_isspace (rev s))"
    by (simp only: rev_append py_rstrip_def)
  then show ?thesis by blast
qed

lemma py_rstrip_last: "py_rstrip s = [] \<or> \<not> py_isspace (last (py_rstrip s))"
  using hd_dropWhile [of py_isspace "rev s"]
  by (auto simp: py_rstrip_def last_rev)

lemma py_isspace_LF: "py_isspace LF"
  by (simp add: py_isspace_def LF_def)

lemma py_rstrip_snoc_LF:
  "r = [] \<or> \<not> py_isspace (last r) \<Longrightarrow> py_rstrip (r @ [LF]) = r"
proof -
  assume a: "r = [] \<or> \<not> py_isspace (last r)"
  have "dropWhile py_isspace (rev r) = rev r"
  proof (cases r rule: rev_cases)
    case Nil
    then show ?thesis by simp
  next
    case (snoc ys y)
    with a show ?thesis by simp
  qed
  then show ?thesis by (simp add: py_rstrip_def py_isspace_LF)
qed

lemma set_py_rstrip: "set (py_rstrip s) \<subseteq> set s"
  using set_dropWhileD [of _ py_isspace "rev s"] by (auto simp: py_rstrip_def)

lemma CR_neq_LF: "CR \<noteq> LF"
  by (simp add: CR_def LF_def)

lemma cleanup_shape:
  assumes "code \<noteq> []"
  shows "\<exists>r. cleanup_code_formatting code = r @ [LF]
           \<and> (r = [] \<or> \<not> py_isspace (last r)) \<and> CR \<notin> set r \<and> no_triple r"
proof -
  define code1 where "code1 = py_replace (py_replace code [CR, LF] [LF]) [CR] [LF]"
  define code2 where "code2 = collapse_newlines code1"
  define r where "r = py_rstrip code2"
  have "CR \<notin> set code1"
    using replace_scan_removes [of CR "[LF]"] CR_neq_LF
    by (simp add: code1_def py_replace_def)
  then have "CR \<notin> set code2"
    using set_collapse_newlines [of code1] CR_neq_LF by (auto simp: code2_def)
  then have 1: "CR \<notin> set r"
    using set_py_rstrip [of code2] by (auto simp: r_def)
  obtain w where "code2 = r @ w"
    using py_rstrip_decomp [of code2] by (auto simp: r_def)
  then have 2: "no_triple r"
    using no_triple_collapse [of code1] no_triple_prefix [of r w] by (simp add: code2_def)
  have 3: "r = [] \<or> \<not> py_isspace (last r)"
    unfolding r_def by (rule py_rstrip_last)
  have "cleanup_code_formatting code = r @ [LF]"
    using assms by (simp add: cleanup_code_formatting_def Let_def code1_def code2_def r_def)
  with 1 2 3 show ?thesis by blast
qed

lemma cleanup_fixed:
  assumes "r = [] \<or> \<not> py_isspace (last r)" "CR \<notin> set r" "no_triple r"
  shows "cleanup_code_formatting (r @ [LF]) = r @ [LF]"
proof -
  have ncr: "CR \<notin> set (r @ [LF])"
    using assms(2) CR_neq_LF by simp
  have a: "py_replace (r @ [LF]) [CR, LF] [LF] = r @ [LF]"
    using replace_scan_absent [of "[CR, LF]" "r @ [LF]" "[LF]"] ncr
    by (simp add: py_replace_def)
  have b: "py_replace (r @ [LF]) [CR] [LF] = r @ [LF]"
    using replace_scan_absent [of "[CR]" "r @ [LF]" "[LF]"] ncr
    by (simp add: py_replace_def)
  have "r = [] \<or> last r \<noteq> LF"
    using assms(1) py_isspace_LF by auto
  then have c: "collapse_newlines (r @ [LF]) = r @ [LF]"
    using assms(3) by (simp add: collapse_fixed no_triple_snoc)
  show ?thesis
    by (simp add: cleanup_code_formatting_def Let_def a b c py_rstrip_snoc_LF [OF assms(1)])
qed

text \<open>
  Claim C7. The cleanup step is idempotent: for every input string, cleaning the cleaned
  code again changes nothing.
\<close>

theorem cleanup_code_formatting_idempotent:
  "cleanup_code_formatting (cleanup_code_formatting code) = cleanup_code_formatting code"
proof (cases "code = []")
  case True
  then show ?thesis by (simp add: cleanup_code_formatting_def)
next
  case False
  then obtain r where "cleanup_code_formatting code = r @ [LF]"
    "r = [] \<or> \<not> py_isspace (last r)" "CR \<notin> set r" "no_triple r"
    using cleanup_shape by blast
  then show ?thesis by (simp add: cleanup_fixed)
qed


text \<open>
  Claim C10. The empty string (and \<open>None\<close>) comes back unchanged, with no newline added;
  every non-empty input comes back ending with exactly one newline: the output is a body
  followed by a newline, and the body is empty or does not end with a newline.
\<close>

theorem cleanup_code_formatting_trailing_newline:
  "cleanup_code_formatting [] = []
   \<and> cleanup_code_formatting_any None = None
   \<and> cleanup_code_formatting_any (Some []) = Some []
   \<and> (code \<noteq> [] \<longrightarrow>
        (\<exists>body. cleanup_code_formatting code = body @ [LF] \<and> (body = [] \<or> last body \<noteq> LF)))"
proof (intro conjI impI)
  show "cleanup_code_formatting [] = []"
    by (simp add: cleanup_code_formatting_def)
  show "cleanup_code_formatting_any None = None"
    by (simp add: cleanup_code_formatting_any_def)
  show "cleanup_code_formatting_any (Some []) = Some []"
    by (simp add: cleanup_code_formatting_any_def cleanup_code_formatting_def)
next
  assume "code \<noteq> []"
  then obtain r where r: "cleanup_code_formatting code = r @ [LF]"
    "r = [] \<or> \<not> py_isspace (last r)"
    using cleanup_shape by blast
  then have "r = [] \<or> last r \<noteq> LF"
    using py_isspace_LF by auto
  with r show "\<exists>body. cleanup_code_formatting code = body @ [LF] \<and> (body = [] \<or> last body \<noteq> LF)"
    by blast
qed

theorem cleanup_code_formatting_trailing_newline_witness:
  "''x = 1  '' \<noteq> [] \<and> cleanup_code_formatting (''x = 1  '' @ [LF, LF]) = ''x = 1'' @ [LF]
   \<and> (\<exists>body. cleanup_code_formatting (''x = 1  '' @ [LF, LF]) = body @ [LF]
         \<and> (body = [] \<or> last body \<noteq> LF))"
  using cleanup_code_formatting_trailing_newline [of "''x = 1  '' @ [LF, LF]"]
  by (simp add: cleanup_code_formatting_def py_replace_def py_rstrip_def py_isspace_def
        LF_def CR_def)

section \<open>Extraction\<close>









lemma try_extraction_methods_all_fail:
  "(\<And>name f. (name, f) \<in> set ms \<Longrightarrow> method_fails f response) \<Longrightarrow>
     snd (try_extraction_methods ms response)
       = Failure ''All code extraction methods failed'' (take 500 response)"
proof (induction ms)
  case Nil
  then show ?case by simp
next
  case (Cons p ms)
  obtain name f where p: "p = (name, f)" by (cases p)
  from Cons.prems [of name f] p have "method_fails f response" by simp
  moreover have "snd (try_extraction_methods ms response)
       = Failure ''All code extraction methods failed'' (take 500 response)"
  proof (rule Cons.IH)
    fix name' f'
    assume "(name', f') \<in> set ms"
    then show "method_fails f' response" using Cons.prems [of name' f'] by simp
  qed
  ultimately show ?case using p
    by (auto simp: method_fails_def split_beta split: sum.splits)
qed







text \<open>
  Claim C4, as the code has it. When each of the four methods fails on a response (it
  raises, or its code is empty or at most 50 characters long after \<open>strip\<close>), the result is
  success = false with the error text and a preview that is the first 500 characters of
  the response: at most 500 long, the whole response when that is shorter, and empty
  exactly when the response is empty.
\<close>

theorem extraction_failure_preview:
  "method_fails extract_python_blocks response \<Longrightarrow>
   method_fails extract_generic_blocks response \<Longrightarrow>
   method_fails extract_import_based response \<Longrightarrow>
   method_fails extract_pattern_matching response \<Longrightarrow>
     snd (extract_code_with_fallbacks response)
       = Failure ''All code extraction methods failed'' (take 500 response)
     \<and> \<not> is_success (snd (extract_code_with_fallbacks response))
     \<and> length (raw_response (snd (extract_code_with_fallbacks response)))
         = min 500 (length response)
     \<and> (raw_response (snd (extract_code_with_fallbacks response)) = [] \<longleftrightarrow> response = [])"
proof -
  assume a: "method_fails extract_python_blocks response"
    "method_fails extract_generic_blocks response"
    "method_fails extract_import_based response"
    "method_fails extract_pattern_matching response"
  have "snd (try_extraction_methods extraction_methods response)
       = Failure ''All code extraction methods failed'' (take 500 response)"
  proof (rule try_extraction_methods_all_fail)
    fix name f
    assume "(name, f) \<in> set extraction_methods"
    with a show "method_fails f response"
      by (auto simp: extraction_methods_def)
  qed
  then have r: "snd (extract_code_with_fallbacks response)
       = Failure ''All code extraction methods failed'' (take 500 response)"
    by (simp add: extract_code_with_fallbacks_def)
  then show ?thesis by (auto simp: min_def)
qed

theorem extraction_failure_preview_witness:
  "method_fails extract_python_blocks apology
   \<and> method_fails extract_generic_blocks apology
   \<and> method_fails extract_import_based apology
   \<and> method_fails extract_pattern_matching apology
   \<and> snd (extract_code_with_fallbacks apology)
       = Failure ''All code extraction methods failed'' apology"
proof -
  have 1: "method_fails extract_python_blocks apology" by code_simp
  have 2: "method_fails extract_generic_blocks apology" by code_simp
  have 3: "method_fails extract_import_based apology" by code_simp
  have 4: "method_fails extract_pattern_matching apology" by code_simp
  have 5: "take 500 apology = apology" by (simp add: apology_def)
  from extraction_failure_preview [OF 1 2 3 4] 1 2 3 4 5 show ?thesis by simp
qed

text \<open>
  The claim as stated fails on the empty response: all four methods fail, and the preview
  is empty.
\<close>

theorem empty_response_preview_counterexample:
  "method_fails extract_python_blocks []
   \<and> method_fails extract_generic_blocks []
   \<and> method_fails extract_import_based []
   \<and> method_fails extract_pattern_matching []
   \<and> \<not> is_success (snd (extract_code_with_fallbacks []))
   \<and> raw_response (snd (extract_code_with_fallbacks [])) = []"
  by code_simp

section \<open>Artifact store\<close>

lemma sanitize_key_chars: "set (sanitize_session_id s) \<subseteq> Collect key_char"
  by (auto simp: sanitize_session_id_def)

lemma get_code_file_returns:
  "\<exists>r. get_code_file fault bucket_name objects session_id code_type = Inr r"
proof (cases "get_code_file_try fault bucket_name objects session_id code_type")
  case (Inl e)
  then show ?thesis by (cases e) (simp_all add: get_code_file_def)
next
  case (Inr r)
  then show ?thesis by (simp add: get_code_file_def)
qed

lemma get_code_file_served:
  assumes "code_type \<in> set code_types" "sanitize_session_id session_id \<noteq> []"
  shows "get_code_file None bucket_name objects session_id code_type =
     (let k = s3_key (sanitize_session_id session_id) code_type (extension_of code_type)
      in case objects k of
           None \<Rightarrow> Inr (GetNotFound ''Code file not found'')
         | Some obj \<Rightarrow> Inr (GetSuccess (body obj) (''s3://'' @ bucket_name @ ''/'' @ k)
                             code_type session_id (length (body obj))))"
  using assms
  by (simp add: get_code_file_def get_code_file_try_def s3_get_object_def Let_def
           split: option.splits)

text \<open>
  Claim C8, as the code has it. \<open>get_code_file\<close> never raises, whatever its input and
  whatever the service does. For a recognized slot and a session id that keeps at least
  one character under sanitization, a served request for a key that holds nothing gives
  the outcome \<open>not_found\<close>, which differs from \<open>error\<close>. An unrecognized slot, a session
  id that sanitization empties, and every failure of the service other than the client
  error \<open>NoSuchKey\<close> give \<open>error\<close>.
\<close>

theorem get_code_file_not_found:
  "(\<exists>r. get_code_file fault bucket_name objects session_id code_type = Inr r)
   \<and> (code_type \<in> set code_types \<and> sanitize_session_id session_id \<noteq> []
        \<and> objects (s3_key (sanitize_session_id session_id) code_type (extension_of code_type))
            = None
      \<longrightarrow> get_code_file None bucket_name objects session_id code_type
            = Inr (GetNotFound ''Code file not found'')
          \<and> get_status (GetNotFound ''Code file not found'') = ''not_found''
          \<and> get_status (GetNotFound ''Code file not found'') \<noteq> get_status (GetError e))
   \<and> (code_type \<notin> set code_types
      \<longrightarrow> get_code_file fault bucket_name objects session_id code_type
            = Inr (GetError ''Unexpected error''))
   \<and> (code_type \<in> set code_types \<and> sanitize_session_id session_id \<noteq> []
        \<and> error_code \<noteq> ''NoSuchKey''
      \<longrightarrow> get_code_file (Some (ClientError error_code)) bucket_name objects session_id code_type
            = Inr (GetError ''AWS S3 error''))
   \<and> (sanitize_session_id session_id = []
      \<longrightarrow> get_code_file fault bucket_name objects session_id code_type
            = Inr (GetError ''Unexpected error''))
   \<and> (code_type \<in> set code_types \<and> sanitize_session_id session_id \<noteq> []
        \<and> (\<forall>c. raised \<noteq> ClientError c)
      \<longrightarrow> get_code_file (Some raised) bucket_name objects session_id code_type
            = Inr (GetError ''Unexpected error''))
   \<and> (raised \<noteq> ClientError ''NoSuchKey''
      \<longrightarrow> (\<exists>text. get_code_file (Some raised) bucket_name objects session_id code_type
                    = Inr (GetError text))
          \<and> get_status (GetError e) = ''error'')"
proof (intro conjI impI)
  show "\<exists>r. get_code_file fault bucket_name objects session_id code_type = Inr r"
    by (rule get_code_file_returns)
next
  assume a: "code_type \<in> set code_types \<and> sanitize_session_id session_id \<noteq> []
        \<and> objects (s3_key (sanitize_session_id session_id) code_type (extension_of code_type))
            = None"
  then show "get_code_file None bucket_name objects session_id code_type
            = Inr (GetNotFound ''Code file not found'')"
    by (simp add: get_code_file_served)
  show "get_status (GetNotFound ''Code file not found'') = ''not_found''"
    by (simp add: get_status_def)
  show "get_status (GetNotFound ''Code file not found'') \<noteq> get_status (GetError e)"
    by (simp add: get_status_def)
next
  assume "code_type \<notin> set code_types"
  then show "get_code_file fault bucket_name objects session_id code_type
            = Inr (GetError ''Unexpected error'')"
    by (simp add: get_code_file_def get_code_file_try_def)
next
  assume "code_type \<in> set code_types \<and> sanitize_session_id session_id \<noteq> []
        \<and> error_code \<noteq> ''NoSuchKey''"
  then show "get_code_file (Some (ClientError error_code)) bucket_name objects session_id code_type
            = Inr (GetError ''AWS S3 error'')"
    by (simp add: get_code_file_def get_code_file_try_def s3_get_object_def Let_def)
next
  assume "sanitize_session_id session_id = []"
  then show "get_code_file fault bucket_name objects session_id code_type
            = Inr (GetError ''Unexpected error'')"
    by (simp add: get_code_file_def get_code_file_try_def)
next
  assume "code_type \<in> set code_types \<and> sanitize_session_id session_id \<noteq> []
        \<and> (\<forall>c. raised \<noteq> ClientError c)"
  then show "get_code_file (Some raised) bucket_name objects session_id code_type
            = Inr (GetError ''Unexpected error'')"
    by (cases raised)
       (simp_all add: get_code_file_def get_code_file_try_def s3_get_object_def Let_def)
next
  assume n: "raised \<noteq> ClientError ''NoSuchKey''"
  show "\<exists>text. get_code_file (Some raised) bucket_name objects session_id code_type
                    = Inr (GetError text)"
  proof (cases "code_type \<in> set code_types \<and> sanitize_session_id session_id \<noteq> []")
    case True
    with n show ?thesis
      by (cases raised)
         (simp_all add: get_code_file_def get_code_file_try_def s3_get_object_def Let_def)
  next
    case False
    then show ?thesis
      by (auto simp: get_code_file_def get_code_file_try_def Let_def)
  qed
  show "get_status (GetError e) = ''error''"
    by (simp add: get_status_def)
qed

theorem get_code_file_not_found_witness:
  "''pure_strands'' \<in> set code_types \<and> sanitize_session_id ''req-42'' = ''req-42''
   \<and> get_code_file None ''bucket'' Map.empty ''req-42'' ''pure_strands''
        = Inr (GetNotFound ''Code file not found'')
   \<and> get_code_file None ''bucket'' Map.empty ''req-42'' ''notes''
        = Inr (GetError ''Unexpected error'')
   \<and> get_code_file (Some (ClientError ''AccessDenied'')) ''bucket'' Map.empty ''req-42''
        ''pure_strands'' = Inr (GetError ''AWS S3 error'')
   \<and> sanitize_session_id ''...'' = []
   \<and> get_code_file None ''bucket'' Map.empty ''...'' ''pure_strands''
        = Inr (GetError ''Unexpected error'')
   \<and> get_code_file (Some (OtherException ''EndpointConnectionError'')) ''bucket'' Map.empty
        ''req-42'' ''pure_strands'' = Inr (GetError ''Unexpected error'')"
proof -
  have 1: "''pure_strands'' \<in> set code_types" by (simp add: code_types_def)
  have 2: "sanitize_session_id ''req-42'' = ''req-42''"
    by (simp add: sanitize_session_id_def key_char_def py_isalnum_def)
  have 3: "''notes'' \<notin> set code_types" by (simp add: code_types_def)
  have 4: "''AccessDenied'' \<noteq> ''NoSuchKey''" by simp
  have 5: "sanitize_session_id ''...'' = []"
    by (simp add: sanitize_session_id_def key_char_def py_isalnum_def)
  have 6: "\<forall>c. OtherException ''EndpointConnectionError'' \<noteq> ClientError c" by simp
  from get_code_file_not_found
         [of None "''bucket''" Map.empty "''req-42''" "''pure_strands''" "''x''" "''AccessDenied''"
             "OtherException ''EndpointConnectionError''"]
       get_code_file_not_found
         [of None "''bucket''" Map.empty "''req-42''" "''notes''" "''x''" "''AccessDenied''"
             "OtherException ''EndpointConnectionError''"]
       get_code_file_not_found
         [of None "''bucket''" Map.empty "''...''" "''pure_strands''" "''x''" "''AccessDenied''"
             "OtherException ''EndpointConnectionError''"]
       1 2 3 4 5 6
  show ?thesis by simp
qed

text \<open>
  The claim as stated fails for a session id that sanitization empties: nothing is stored
  for it, and the outcome is \<open>error\<close>, not \<open>not_found\<close>.
\<close>

theorem get_code_file_emptied_session_counterexample:
  "''pure_strands'' \<in> set code_types
   \<and> get_code_file None ''bucket'' Map.empty ''../..'' ''pure_strands''
        = Inr (GetError ''Unexpected error'')
   \<and> get_status (GetError ''Unexpected error'') = ''error''"
  by (simp add: code_types_def get_code_file_def get_code_file_try_def sanitize_session_id_def
        key_char_def py_isalnum_def get_status_def)

lemma store_code_file_success:
  assumes "store_code_file fault bucket_name objects session_id content code_type file_extension
             = Inr (StoreSuccess uri b k ct sid n, objects')"
  shows "k = s3_key (sanitize_session_id session_id) code_type file_extension"
    and "sanitize_session_id session_id \<noteq> []"
    and "code_type \<in> set code_types"
    and "py_strip session_id \<noteq> []" and "py_strip content \<noteq> []"
    and "map_option body (objects' k) = Some content"
    and "\<And>k'. k' \<noteq> k \<Longrightarrow> objects' k' = objects k'"
    and "uri = ''s3://'' @ bucket_name @ ''/'' @ k"
    and "fault = None"
proof -
  have t: "store_code_file_try fault bucket_name objects session_id content code_type
             file_extension = Inr (StoreSuccess uri b k ct sid n, objects')"
  proof (cases "store_code_file_try fault bucket_name objects session_id content code_type
             file_extension")
    case (Inl e)
    with assms show ?thesis by (cases e) (simp_all add: store_code_file_def)
  next
    case (Inr r)
    with assms show ?thesis by (simp add: store_code_file_def)
  qed
  then have c: "code_type \<in> set code_types" "session_id \<noteq> []" "py_strip session_id \<noteq> []"
    "content \<noteq> []" "py_strip content \<noteq> []" "sanitize_session_id session_id \<noteq> []"
    by (auto simp: store_code_file_try_def Let_def split: if_splits)
  with t have f: "fault = None"
    by (cases fault) (simp_all add: store_code_file_try_def Let_def s3_put_object_def)
  from t c f have k: "k = s3_key (sanitize_session_id session_id) code_type file_extension"
    and o: "objects' = objects(k \<mapsto> stored_object session_id content code_type file_extension)"
    and u: "uri = ''s3://'' @ bucket_name @ ''/'' @ k"
    by (auto simp: store_code_file_try_def Let_def s3_put_object_def)
  show "k = s3_key (sanitize_session_id session_id) code_type file_extension" by (rule k)
  show "sanitize_session_id session_id \<noteq> []" "code_type \<in> set code_types"
    "py_strip session_id \<noteq> []" "py_strip content \<noteq> []" "fault = None"
    using c f by simp_all
  show "map_option body (objects' k) = Some content" using o by (simp add: stored_object_def)
  show "\<And>k'. k' \<noteq> k \<Longrightarrow> objects' k' = objects k'" using o by simp
  show "uri = ''s3://'' @ bucket_name @ ''/'' @ k" by (rule u)
qed

lemma store_code_file_rejects:
  assumes "session_id = [] \<or> py_strip session_id = [] \<or> content = [] \<or> py_strip content = []
           \<or> code_type \<notin> set code_types"
  shows "store_code_file fault bucket_name objects session_id content code_type file_extension
           = Inr (StoreError ''Validation error'', objects)"
  using assms by (auto simp: store_code_file_def store_code_file_try_def)

text \<open>
  Claim C9, as the code has it. A successful store writes exactly one key,
  \<open>temp-code/{sanitized session id}/{slot}{extension}\<close>, where the sanitized id is not
  empty and holds only alphanumerics, hyphens and underscores, the slot is one of the
  three, and the extension is the \<open>file_extension\<close> argument of the call (\<open>.py\<close> when the
  caller leaves it out). \<open>get_code_file\<close> reads the key of the same form whose extension is
  \<open>.txt\<close> for \<open>requirements\<close> and \<open>.py\<close> for the two code slots. A store with an empty or
  blank session id or content, or with another slot, returns an error and stores nothing.
  A get after a successful store returns the stored content when the store was called
  with the extension of its slot.
\<close>

theorem store_code_file_layout:
  "(store_code_file fault bucket_name objects session_id content code_type file_extension
      = Inr (StoreSuccess uri b k ct sid n, objects')
    \<longrightarrow> k = ''temp-code/'' @ sanitize_session_id session_id @ ''/'' @ code_type @ file_extension
        \<and> sanitize_session_id session_id \<noteq> []
        \<and> set (sanitize_session_id session_id) \<subseteq> Collect key_char
        \<and> code_type \<in> set code_types
        \<and> map_option body (objects' k) = Some content
        \<and> (\<forall>k'. k' \<noteq> k \<longrightarrow> objects' k' = objects k')
        \<and> (file_extension = extension_of code_type
            \<longrightarrow> get_code_file None bucket_name objects' session_id code_type
                  = Inr (GetSuccess content uri code_type session_id (length content))))
   \<and> (session_id = [] \<or> py_strip session_id = [] \<or> content = [] \<or> py_strip content = []
        \<or> code_type \<notin> set code_types
      \<longrightarrow> store_code_file fault bucket_name objects session_id content code_type file_extension
            = Inr (StoreError ''Validation error'', objects))
   \<and> (code_type \<in> set code_types \<and> sanitize_session_id session_id \<noteq> []
      \<longrightarrow> get_code_file None bucket_name objects session_id code_type
           = (case objects (''temp-code/'' @ sanitize_session_id session_id @ ''/'' @ code_type
                            @ extension_of code_type) of
                None \<Rightarrow> Inr (GetNotFound ''Code file not found'')
              | Some obj \<Rightarrow>
                  Inr (GetSuccess (body obj)
                        (''s3://'' @ bucket_name @ ''/'' @ ''temp-code/''
                           @ sanitize_session_id session_id @ ''/'' @ code_type
                           @ extension_of code_type)
                        code_type session_id (length (body obj)))))
   \<and> extension_of ''pure_strands'' = ''.py'' \<and> extension_of ''agentcore_ready'' = ''.py''
   \<and> extension_of ''requirements'' = ''.txt''"
proof (intro conjI impI)
  assume a: "store_code_file fault bucket_name objects session_id content code_type
      file_extension = Inr (StoreSuccess uri b k ct sid n, objects')"
  note s = store_code_file_success [OF a]
  show "k = ''temp-code/'' @ sanitize_session_id session_id @ ''/'' @ code_type @ file_extension"
    using s(1) by (simp add: s3_key_def)
  show "sanitize_session_id session_id \<noteq> []" by (rule s(2))
  show "set (sanitize_session_id session_id) \<subseteq> Collect key_char"
    by (rule sanitize_key_chars)
  show "code_type \<in> set code_types" by (rule s(3))
  show "map_option body (objects' k) = Some content" by (rule s(6))
  show "\<forall>k'. k' \<noteq> k \<longrightarrow> objects' k' = objects k'" using s(7) by blast
  assume e: "file_extension = extension_of code_type"
  from s(6) obtain obj where obj: "objects' k = Some obj" "body obj = content" by auto
  with e s(1) s(2) s(3) s(8)
  show "get_code_file None bucket_name objects' session_id code_type
          = Inr (GetSuccess content uri code_type session_id (length content))"
    by (simp add: get_code_file_served Let_def)
next
  assume "session_id = [] \<or> py_strip session_id = [] \<or> content = [] \<or> py_strip content = []
        \<or> code_type \<notin> set code_types"
  then show "store_code_file fault bucket_name objects session_id content code_type
        file_extension = Inr (StoreError ''Validation error'', objects)"
    by (rule store_code_file_rejects)
next
  assume "code_type \<in> set code_types \<and> sanitize_session_id session_id \<noteq> []"
  then show "get_code_file None bucket_name objects session_id code_type
           = (case objects (''temp-code/'' @ sanitize_session_id session_id @ ''/'' @ code_type
                            @ extension_of code_type) of
                None \<Rightarrow> Inr (GetNotFound ''Code file not found'')
              | Some obj \<Rightarrow>
                  Inr (GetSuccess (body obj)
                        (''s3://'' @ bucket_name @ ''/'' @ ''temp-code/''
                           @ sanitize_session_id session_id @ ''/'' @ code_type
                           @ extension_of code_type)
                        code_type session_id (length (body obj))))"
    by (simp add: get_code_file_served Let_def s3_key_def split: option.splits)
qed (simp_all add: extension_of_def)

theorem store_code_file_layout_witness:
  "store_code_file None ''bucket'' Map.empty ''sess 1/'' ''import os'' ''pure_strands'' ''.py''
     = Inr (StoreSuccess ''s3://bucket/temp-code/sess1/pure_strands.py'' ''bucket''
              ''temp-code/sess1/pure_strands.py'' ''pure_strands'' ''sess 1/'' 9,
            [''temp-code/sess1/pure_strands.py'' \<mapsto> stored_object ''sess 1/'' ''import os''
                ''pure_strands'' ''.py''])
   \<and> get_code_file None ''bucket''
         [''temp-code/sess1/pure_strands.py'' \<mapsto> stored_object ''sess 1/'' ''import os''
                ''pure_strands'' ''.py'']
         ''sess 1/'' ''pure_strands''
       = Inr (GetSuccess ''import os'' ''s3://bucket/temp-code/sess1/pure_strands.py''
                ''pure_strands'' ''sess 1/'' 9)
   \<and> store_code_file None ''bucket'' Map.empty '' '' ''import os'' ''pure_strands'' ''.py''
       = Inr (StoreError ''Validation error'', Map.empty)"
proof -
  have h: "store_code_file None ''bucket'' Map.empty ''sess 1/'' ''import os'' ''pure_strands''
      ''.py''
     = Inr (StoreSuccess ''s3://bucket/temp-code/sess1/pure_strands.py'' ''bucket''
              ''temp-code/sess1/pure_strands.py'' ''pure_strands'' ''sess 1/'' 9,
            [''temp-code/sess1/pure_strands.py'' \<mapsto> stored_object ''sess 1/'' ''import os''
                ''pure_strands'' ''.py''])"
    by (simp add: store_code_file_def store_code_file_try_def code_types_def py_strip_def
          py_lstrip_def py_rstrip_def py_isspace_def sanitize_session_id_def key_char_def
          py_isalnum_def s3_key_def s3_put_object_def Let_def)
  have e: "''.py'' = extension_of ''pure_strands''" by (simp add: extension_of_def)
  have b: "py_strip '' '' = []"
    by (simp add: py_strip_def py_lstrip_def py_rstrip_def py_isspace_def)
  from store_code_file_layout
         [of None "''bucket''" Map.empty "''sess 1/''" "''import os''" "''pure_strands''"
             "''.py''" "''s3://bucket/temp-code/sess1/pure_strands.py''" "''bucket''"
             "''temp-code/sess1/pure_strands.py''" "''pure_strands''" "''sess 1/''" 9
             "[''temp-code/sess1/pure_strands.py'' \<mapsto> stored_object ''sess 1/'' ''import os''
                ''pure_strands'' ''.py'']"]
       h e
  have 1: "get_code_file None ''bucket''
         [''temp-code/sess1/pure_strands.py'' \<mapsto> stored_object ''sess 1/'' ''import os''
                ''pure_strands'' ''.py'']
         ''sess 1/'' ''pure_strands''
       = Inr (GetSuccess ''import os'' ''s3://bucket/temp-code/sess1/pure_strands.py''
                ''pure_strands'' ''sess 1/'' 9)"
    by simp
  from store_code_file_layout
         [of None "''bucket''" Map.empty "'' ''" "''import os''" "''pure_strands''" "''.py''"]
       b
  have 2: "store_code_file None ''bucket'' Map.empty '' '' ''import os'' ''pure_strands'' ''.py''
       = Inr (StoreError ''Validation error'', Map.empty)"
    by simp
  from h 1 2 show ?thesis by simp
qed

text \<open>
  The claim as stated fails for the manifest slot stored with the default extension: the
  store succeeds under \<open>requirements.py\<close>, and the get that follows reads
  \<open>requirements.txt\<close> and finds nothing.
\<close>

theorem store_requirements_default_extension_counterexample:
  "store_code_file None ''bucket'' Map.empty ''sess-1'' ''boto3>=1.34.0'' ''requirements''
       default_file_extension
     = Inr (StoreSuccess ''s3://bucket/temp-code/sess-1/requirements.py'' ''bucket''
              ''temp-code/sess-1/requirements.py'' ''requirements'' ''sess-1'' 13,
            [''temp-code/sess-1/requirements.py'' \<mapsto> stored_object ''sess-1''
                ''boto3>=1.34.0'' ''requirements'' ''.py''])
   \<and> get_code_file None ''bucket''
         [''temp-code/sess-1/requirements.py'' \<mapsto> stored_object ''sess-1''
                ''boto3>=1.34.0'' ''requirements'' ''.py'']
         ''sess-1'' ''requirements''
       = Inr (GetNotFound ''Code file not found'')"
  by (simp add: store_code_file_def store_code_file_try_def code_types_def py_strip_def
        py_lstrip_def py_rstrip_def py_isspace_def sanitize_session_id_def key_char_def
        py_isalnum_def s3_key_def s3_put_object_def Let_def
        default_file_extension_def get_code_file_def get_code_file_try_def s3_get_object_def
        extension_of_def)

section \<open>Response text\<close>

lemma map_filter_dict_block_texts:
  "List.map_filter dict_block (map text_block texts) = map PStr texts"
  by (induction texts) (simp_all add: List.map_filter_simps dict_block_def text_block_def)

lemma join_lines_strings: "join_lines (map PStr texts) = Inr (PStr (join_with [LF] texts))"
proof -
  have "list_all (\<lambda>p. the_str p \<noteq> None) (map PStr texts)"
    by (induction texts) simp_all
  moreover have "List.map_filter the_str (map PStr texts) = texts"
    by (induction texts) (simp_all add: List.map_filter_simps)
  ultimately show ?thesis by (simp add: join_lines_def)
qed

lemma dict_input_stringified:
  "extract_response_text_properly (PDict kvs) = Inr (PStr (py_repr (PDict kvs)))"
  by (simp add: extract_response_text_properly_def py_getattr_def py_str_def)

text \<open>
  Claim C3 on the code. A dictionary has no attribute \<open>message\<close>, so a response that is
  itself the dictionary \<open>{content: [{text: X}]}\<close> is returned as \<open>str\<close> of the whole
  dictionary, where the newline of \<open>X\<close> is written as a backslash and \<open>n\<close>: not \<open>X\<close>.
\<close>

theorem dict_response_stringified:
  "extract_response_text_properly (content_message [two_line_text]) = Inr (PStr two_line_repr)
   \<and> two_line_repr \<noteq> two_line_text
   \<and> sublist escaped_newline two_line_repr"
  by code_simp

text \<open>
  The same dictionary as the \<open>message\<close> of a result object is handled as the claim says:
  the text fields of the blocks, joined with single newlines; a string, as the result or
  as its message, is returned unchanged.
\<close>

theorem message_content_joined:
  "(py_getattr result ''message'' = Some (PDict kvs)
      \<and> map_of kvs ''content'' = Some (PList (map text_block texts)) \<and> texts \<noteq> []
    \<longrightarrow> extract_response_text_properly result = Inr (PStr (join_with [LF] texts)))
   \<and> join_with [LF] [x] = x
   \<and> extract_response_text_properly (PStr s) = Inr (PStr s)
   \<and> (py_getattr result ''message'' = Some (PStr s)
      \<longrightarrow> extract_response_text_properly result = Inr (PStr s))"
  by (simp add: extract_response_text_properly_def map_filter_dict_block_texts
        join_lines_strings py_getattr_def py_str_def)

theorem message_content_joined_witness:
  "py_getattr (agent_result (content_message [two_line_text, ''c''])) ''message''
     = Some (content_message [two_line_text, ''c''])
   \<and> extract_response_text_properly (agent_result (content_message [two_line_text, ''c'']))
     = Inr (PStr (''a'' @ [LF] @ ''b'' @ [LF] @ ''c''))
   \<and> extract_response_text_properly (agent_result (PStr ''plain'')) = Inr (PStr ''plain'')"
proof -
  have 1: "py_getattr (agent_result (content_message [two_line_text, ''c''])) ''message''
     = Some (PDict [(''content'', PList (map text_block [two_line_text, ''c'']))])"
    by (simp add: py_getattr_def agent_result_def content_message_def)
  have 2: "py_getattr (agent_result (PStr ''plain'')) ''message'' = Some (PStr ''plain'')"
    by (simp add: py_getattr_def agent_result_def)
  from message_content_joined
         [of "agent_result (content_message [two_line_text, ''c''])"
             "[(''content'', PList (map text_block [two_line_text, ''c'']))]"
             "[two_line_text, ''c'']" "''x''" "''plain''"]
       message_content_joined
         [of "agent_result (PStr ''plain'')" "[]" "[]" "''x''" "''plain''"]
       1 2
  show ?thesis by (simp add: content_message_def two_line_text_def)
qed

section \<open>Remote agent invoker\<close>

lemma stream_lines_blank:
  "stream_lines json_loads full_content (Line [] # ls) = stream_lines json_loads full_content ls"
  by (simp add: stream_line_def split_beta)

lemma stream_line_data:
  "json_loads p = JsonString t \<Longrightarrow>
     stream_line json_loads full_content (Line (''data: '' @ p))
       = Inr ([''data: '' @ sse_escape t @ [LF, LF]], full_content @ t)"
  by (simp add: stream_line_def)

lemma data_or_blank_simps:
  "data_or_blank None = Line []" "data_or_blank (Some p) = Line (''data: '' @ p)"
  by (simp_all add: data_or_blank_def)

lemma payloads_simps:
  "payloads [] = []" "payloads (None # items) = payloads items"
  "payloads (Some p # items) = p # payloads items"
  by (simp_all add: payloads_def List.map_filter_simps)

lemma stream_lines_data_or_blank:
  "\<forall>p \<in> set (payloads items). json_loads p = JsonString (decode p) \<Longrightarrow>
     stream_lines json_loads full_content (map data_or_blank items)
       = (map (\<lambda>p. ''data: '' @ sse_escape (decode p) @ [LF, LF]) (payloads items),
          Inr (full_content @ concat (map decode (payloads items))))"
proof (induction items arbitrary: full_content)
  case Nil
  then show ?case by (simp add: payloads_simps)
next
  case (Cons item items)
  show ?case
  proof (cases item)
    case None
    with Cons.prems have "\<forall>p \<in> set (payloads items). json_loads p = JsonString (decode p)"
      by (simp add: payloads_simps)
    then have "stream_lines json_loads full_content (map data_or_blank items)
       = (map (\<lambda>p. ''data: '' @ sse_escape (decode p) @ [LF, LF]) (payloads items),
          Inr (full_content @ concat (map decode (payloads items))))"
      by (rule Cons.IH)
    with None show ?thesis
      by (simp add: data_or_blank_simps payloads_simps stream_lines_blank
            del: stream_lines.simps)
  next
    case (Some payload)
    with Cons.prems have d: "json_loads payload = JsonString (decode payload)"
      and r: "\<forall>p \<in> set (payloads items). json_loads p = JsonString (decode p)"
      by (simp_all add: payloads_simps)
    from r have "stream_lines json_loads (full_content @ decode payload) (map data_or_blank items)
       = (map (\<lambda>p. ''data: '' @ sse_escape (decode p) @ [LF, LF]) (payloads items),
          Inr ((full_content @ decode payload) @ concat (map decode (payloads items))))"
      by (rule Cons.IH)
    with Some stream_line_data
           [where json_loads = json_loads and p = payload and t = "decode payload"
              and full_content = full_content, OF d]
    show ?thesis
      by (simp add: data_or_blank_simps payloads_simps)
  qed
qed

text \<open>
  Claim C1 on the code. For the stream of two data lines with a blank line between them,
  the generator yields the two content frames and the final frame, whose accumulated text
  is the two decoded payloads one after the other; the blank line is not forwarded. For
  any two lines, the stream with a blank line between them yields what the stream without
  it yields.
\<close>

theorem blank_line_not_forwarded:
  "streaming_frames example_loads json_dumps request_id
       [Line hello_line, Line [], Line world_line]
     = [''data: Hello '' @ [LF, LF],
        ''data: world'' @ [backslash, CHR ''n''] @ [LF, LF],
        final_frame json_dumps request_id (''Hello world'' @ [LF])]
   \<and> streaming_frames json_loads json_dumps request_id [l1, Line [], l2]
     = streaming_frames json_loads json_dumps request_id [l1, l2]"
proof
  show "streaming_frames example_loads json_dumps request_id
       [Line hello_line, Line [], Line world_line]
     = [''data: Hello '' @ [LF, LF],
        ''data: world'' @ [backslash, CHR ''n''] @ [LF, LF],
        final_frame json_dumps request_id (''Hello world'' @ [LF])]"
    by (simp add: streaming_frames_def stream_line_def hello_line_def world_line_def
          hello_payload_def world_payload_def example_loads_def sse_escape_def
          py_replace_def LF_def CR_def backslash_def)
  show "streaming_frames json_loads json_dumps request_id [l1, Line [], l2]
     = streaming_frames json_loads json_dumps request_id [l1, l2]"
    by (cases "stream_line json_loads [] l1")
       (simp_all add: streaming_frames_def stream_lines_blank split_beta
          del: stream_lines.simps
          add: stream_lines.simps(2) [of json_loads "[]" l1])
qed

text \<open>
  What holds of the streaming branch: for a stream of blank lines and data lines whose
  payloads \<open>json.loads\<close> decodes to strings, the generator yields one frame for each data
  line, in the order of the input, and then the final frame, whose accumulated text is the
  decoded payloads one after the other.
\<close>

theorem data_frames_in_order:
  "(\<forall>p \<in> set (payloads items). json_loads p = JsonString (decode p)) \<Longrightarrow>
     streaming_frames json_loads json_dumps request_id (map data_or_blank items)
       = map (\<lambda>p. ''data: '' @ sse_escape (decode p) @ [LF, LF]) (payloads items)
         @ [final_frame json_dumps request_id (concat (map decode (payloads items)))]"
proof -
  assume a: "\<forall>p \<in> set (payloads items). json_loads p = JsonString (decode p)"
  have "stream_lines json_loads [] (map data_or_blank items)
       = (map (\<lambda>p. ''data: '' @ sse_escape (decode p) @ [LF, LF]) (payloads items),
          Inr ([] @ concat (map decode (payloads items))))"
    using a by (rule stream_lines_data_or_blank)
  then show ?thesis by (simp add: streaming_frames_def)
qed

theorem data_frames_in_order_witness:
  "example_loads hello_payload = JsonString ''Hello ''
   \<and> example_loads world_payload = JsonString (''world'' @ [LF])
   \<and> streaming_frames example_loads fr_code (Some ''req-1'')
         [Line (''data: '' @ hello_payload), Line [], Line (''data: '' @ world_payload)]
       = [''data: Hello '' @ [LF, LF],
          ''data: world'' @ [backslash, CHR ''n''] @ [LF, LF],
          final_frame fr_code (Some ''req-1'') (''Hello world'' @ [LF])]"
proof -
  have 1: "example_loads hello_payload = JsonString ''Hello ''"
    and 2: "example_loads world_payload = JsonString (''world'' @ [LF])"
    by (simp_all add: example_loads_def hello_payload_def world_payload_def)
  have 3: "\<forall>p \<in> set (payloads [Some hello_payload, None, Some world_payload]).
             example_loads p = JsonString (example_decode p)"
    using 1 2 by (simp add: payloads_simps example_decode_def)
  have 4: "sse_escape ''Hello '' = ''Hello ''"
    "sse_escape (''world'' @ [LF]) = ''world'' @ [backslash, CHR ''n'']"
    by (simp_all add: sse_escape_def py_replace_def LF_def CR_def backslash_def)
  from data_frames_in_order [OF 3, of fr_code "Some ''req-1''"] 1 2 4
  show ?thesis
    by (simp add: payloads_simps data_or_blank_simps example_decode_def)
qed

lemma try_agentcore_unavailable:
  assumes "\<not> should_use_agentcore_runtime (env_use_agentcore env)
           \<or> get_expert_agent_arn (env_arn_parameter env) = None
           \<or> (\<exists>e. env_invocation env = Inl e)"
  shows "try_agentcore_expert_agent json_loads json_dumps env request_id stream = None"
  using assms
  by (auto simp: try_agentcore_expert_agent_def try_agentcore_expert_agent_try_def
           split: option.splits)

text \<open>
  Claim C5 on the code. The remote invocation succeeds and the response stream then fails
  while it is read (bytes that are not UTF-8): the remote attempt has returned a generator
  object, which is truthy, so \<open>generate_code_freeform\<close> returns it and the local path never
  runs; iterating it yields nothing, not even the final frame.
\<close>

theorem remote_stream_failure_no_fallback:
  "try_agentcore_expert_agent json_loads json_dumps broken_stream_env request_id True
     = Some (Generator [])
   \<and> generate_code_freeform json_loads json_dumps broken_stream_env request_id True local
     = ([REMOTE_ATTEMPT], Inr (FromRemote (Generator [])))"
  by (simp add: generate_code_freeform_def try_agentcore_expert_agent_def
        try_agentcore_expert_agent_try_def broken_stream_env_def
        should_use_agentcore_runtime_def ascii_lower_def get_expert_agent_arn_def
        process_agentcore_response_def streaming_frames_def stream_line_def sublist_code)

text \<open>
  What holds of the gate: when the flag is off, no agent reference is found, or preparing
  and making the invocation raises, the remote attempt returns \<open>None\<close> and the outcome of
  \<open>generate_code_freeform\<close> is the outcome of the local path alone; otherwise the remote
  path alone produces what is returned.
\<close>

theorem remote_unavailable_falls_back:
  "(\<not> should_use_agentcore_runtime (env_use_agentcore env)
      \<or> get_expert_agent_arn (env_arn_parameter env) = None
      \<or> (\<exists>e. env_invocation env = Inl e)
    \<longrightarrow> generate_code_freeform json_loads json_dumps env request_id stream local
          = ([REMOTE_ATTEMPT, LOCAL_GENERATE],
             case local of Inl e \<Rightarrow> Inl e | Inr r \<Rightarrow> Inr (FromLocal r)))
   \<and> (should_use_agentcore_runtime (env_use_agentcore env)
        \<and> get_expert_agent_arn (env_arn_parameter env) \<noteq> None
        \<and> env_invocation env = Inr response
    \<longrightarrow> generate_code_freeform json_loads json_dumps env request_id stream local
          = ([REMOTE_ATTEMPT],
             Inr (FromRemote (process_agentcore_response json_loads json_dumps response
                                request_id stream))))"
proof (intro conjI impI)
  assume "\<not> should_use_agentcore_runtime (env_use_agentcore env)
      \<or> get_expert_agent_arn (env_arn_parameter env) = None
      \<or> (\<exists>e. env_invocation env = Inl e)"
  then have "try_agentcore_expert_agent json_loads json_dumps env request_id stream = None"
    by (rule try_agentcore_unavailable)
  then show "generate_code_freeform json_loads json_dumps env request_id stream local
          = ([REMOTE_ATTEMPT, LOCAL_GENERATE],
             case local of Inl e \<Rightarrow> Inl e | Inr r \<Rightarrow> Inr (FromLocal r))"
    by (simp add: generate_code_freeform_def)
next
  assume "should_use_agentcore_runtime (env_use_agentcore env)
        \<and> get_expert_agent_arn (env_arn_parameter env) \<noteq> None
        \<and> env_invocation env = Inr response"
  then show "generate_code_freeform json_loads json_dumps env request_id stream local
          = ([REMOTE_ATTEMPT],
             Inr (FromRemote (process_agentcore_response json_loads json_dumps response
                                request_id stream)))"
    by (auto simp: generate_code_freeform_def try_agentcore_expert_agent_def
          try_agentcore_expert_agent_try_def)
qed

theorem remote_unavailable_falls_back_witness:
  "\<not> should_use_agentcore_runtime (env_use_agentcore switched_off_env)
   \<and> generate_code_freeform example_loads fr_code switched_off_env (Some ''req-1'') False
        (Inr ''local result'')
       = ([REMOTE_ATTEMPT, LOCAL_GENERATE], Inr (FromLocal ''local result''))
   \<and> generate_code_freeform example_loads fr_code
        (switched_off_env\<lparr>env_use_agentcore := None,
                           env_invocation := Inl (OtherException ''ReadTimeoutError'')\<rparr>)
        (Some ''req-1'') False (Inl (ValueError ''Code extraction failed'') :: py_exception + string)
       = ([REMOTE_ATTEMPT, LOCAL_GENERATE], Inl (ValueError ''Code extraction failed''))"
proof -
  have 1: "\<not> should_use_agentcore_runtime (env_use_agentcore switched_off_env)"
    by code_simp
  have 2: "\<exists>e. env_invocation
             (switched_off_env\<lparr>env_use_agentcore := None,
                           env_invocation := Inl (OtherException ''ReadTimeoutError'')\<rparr>) = Inl e"
    by simp
  from remote_unavailable_falls_back
         [of switched_off_env example_loads fr_code "Some ''req-1''" False "Inr ''local result''"]
       remote_unavailable_falls_back
         [of "switched_off_env\<lparr>env_use_agentcore := None,
                           env_invocation := Inl (OtherException ''ReadTimeoutError'')\<rparr>"
             example_loads fr_code "Some ''req-1''" False
             "Inl (ValueError ''Code extraction failed'') :: py_exception + string"]
       1 2
  show ?thesis by simp
qed

end
